theory Spec2Isabelle
  imports Main
begin

section \<open>Errors\<close>

text \<open>
  Every throw of the source is a value. \<open>invariant(cond, msg)\<close> of tiny-invariant throws
  an error carrying \<open>msg\<close>; \<open>validateAndParseAddress\<close> throws on a malformed address;
  reading a property of \<open>undefined\<close> is a JavaScript \<open>TypeError\<close>; \<open>JSBI.BigInt\<close> on a
  malformed string is a \<open>SyntaxError\<close>. \<open>InsufficientLiquidity\<close> is the curve error of the
  specification's error taxonomy.
\<close>

datatype error =
    InvariantFailed string
  | InvalidAddress string
  | TypeError
  | SyntaxError
  | InsufficientLiquidity

text \<open>The names the specification gives to the invariant messages of the source.\<close>

abbreviation EmptyRoute :: error where
  "EmptyRoute \<equiv> InvariantFailed ''PAIRS''"

abbreviation ChainIdMismatch :: error where
  "ChainIdMismatch \<equiv> InvariantFailed ''CHAIN_IDS''"

abbreviation InputNotInRoute :: error where
  "InputNotInRoute \<equiv> InvariantFailed ''INPUT''"

abbreviation OutputNotInRoute :: error where
  "OutputNotInRoute \<equiv> InvariantFailed ''OUTPUT''"

abbreviation DisconnectedPath :: error where
  "DisconnectedPath \<equiv> InvariantFailed ''PATH''"

abbreviation NativeInNativeOut :: error where
  "NativeInNativeOut \<equiv> InvariantFailed ''ETHER_IN_OUT''"

section \<open>Tokens, currencies, amounts and prices\<close>

text \<open>
  These are the value types of the imported core package, as the source uses them.
  A \<open>Token\<close> is a chain id, an address and a decimal precision; \<open>equals\<close> compares
  chain id and address.
\<close>

record Token =
  chainId :: int
  address :: string
  decimals :: nat

definition Token_equals :: "Token \<Rightarrow> Token \<Rightarrow> bool" where
  "Token_equals a b \<longleftrightarrow> chainId a = chainId b \<and> address a = address b"

text \<open>
  A currency is a token or the chain's native asset. The native asset carries its chain
  id and the token that wraps it (\<open>wrapped\<close>); a token wraps itself.
\<close>

datatype Currency = IsToken Token | IsNative int Token

fun isNative :: "Currency \<Rightarrow> bool" where
  "isNative (IsNative c w) = True"
| "isNative (IsToken t) = False"

fun wrapped :: "Currency \<Rightarrow> Token" where
  "wrapped (IsNative c w) = w"
| "wrapped (IsToken t) = t"

fun Currency_equals :: "Currency \<Rightarrow> Currency \<Rightarrow> bool" where
  "Currency_equals (IsToken a) (IsToken b) = Token_equals a b"
| "Currency_equals (IsNative c w) (IsNative c' w') = (c = c')"
| "Currency_equals (IsToken a) (IsNative c w) = False"
| "Currency_equals (IsNative c w) (IsToken b) = False"

text \<open>An amount is a currency and an exact non-negative raw quantity.\<close>

record 'c CurrencyAmount =
  currency :: 'c
  quotient :: nat

text \<open>
  A fraction is a numerator and a denominator, never reduced; a \<open>Percent\<close> is a fraction;
  a \<open>Price\<close> is a fraction between a base and a quote currency.
\<close>

record Fraction =
  numerator :: nat
  denominator :: nat

type_synonym Percent = Fraction

record Price = Fraction +
  baseCurrency :: Currency
  quoteCurrency :: Currency

text \<open>\<open>new Price(baseCurrency, quoteCurrency, denominator, numerator)\<close>: note the order.\<close>

definition Price_new :: "Currency \<Rightarrow> Currency \<Rightarrow> nat \<Rightarrow> nat \<Rightarrow> Price" where
  "Price_new b q den num =
     \<lparr>numerator = num, denominator = den, baseCurrency = b, quoteCurrency = q\<rparr>"

text \<open>
  \<open>Price.multiply\<close>: the quote currency of the left price must equal the base currency
  of the right one (\<open>invariant(..., 'TOKEN')\<close>); numerators and denominators are
  multiplied.
\<close>

definition Price_multiply :: "Price \<Rightarrow> Price \<Rightarrow> error + Price" where
  "Price_multiply this other =
     (if \<not> Currency_equals (quoteCurrency this) (baseCurrency other)
      then Inl (InvariantFailed ''TOKEN'')
      else Inr (Price_new (baseCurrency this) (quoteCurrency other)
                  (denominator this * denominator other)
                  (numerator this * numerator other)))"

section \<open>Hexadecimal strings\<close>

text \<open>
  \<open>toString(16)\<close> of a non-negative big integer: lower-case digits, no leading zero,
  \<open>"0"\<close> for zero.
\<close>

definition hexDigit :: "nat \<Rightarrow> char" where
  "hexDigit d = ''0123456789abcdef'' ! d"

fun toString16 :: "nat \<Rightarrow> string" where
  "toString16 n =
     (if n < 16 then [hexDigit n] else toString16 (n div 16) @ [hexDigit (n mod 16)])"

declare toString16.simps [simp del]

text \<open>\<open>toHex\<close> of router.ts: \<open>`0x${currencyAmount.quotient.toString(16)}`\<close>.\<close>

definition toHex :: "'c CurrencyAmount \<Rightarrow> string" where
  "toHex currencyAmount = ''0x'' @ toString16 (quotient currencyAmount)"

definition ZERO_HEX :: string where
  "ZERO_HEX = ''0x0''"

text \<open>
  \<open>JSBI.BigInt\<close> applied to a string, for the only form the router passes to it: the
  prefix \<open>0x\<close> followed by at least one hexadecimal digit. Anything else is a
  \<open>SyntaxError\<close>, here \<open>None\<close>.
\<close>

definition hexValue :: "char \<Rightarrow> nat option" where
  "hexValue c =
     (let k = of_char c :: nat in
      if 48 \<le> k \<and> k \<le> 57 then Some (k - 48)
      else if 97 \<le> k \<and> k \<le> 102 then Some (k - 87)
      else if 65 \<le> k \<and> k \<le> 70 then Some (k - 55)
      else None)"

fun parseHex :: "nat \<Rightarrow> string \<Rightarrow> nat option" where
  "parseHex acc [] = Some acc"
| "parseHex acc (c # cs) =
     (case hexValue c of None \<Rightarrow> None | Some d \<Rightarrow> parseHex (16 * acc + d) cs)"

definition JSBI_BigInt :: "string \<Rightarrow> nat option" where
  "JSBI_BigInt s =
     (if take 2 s = ''0x'' \<and> drop 2 s \<noteq> [] then parseHex 0 (drop 2 s) else None)"

section \<open>Pair\<close>

text \<open>
  Modelled from the spec: the Pair class (\<open>./entities/pair\<close>) is missing from the
  sources. A pair is the snapshot \<open>{token0, token1, curveId, reserve0, reserve1, swapFee,
  amplificationCoefficient?}\<close>; the two tokens are the currencies of the two reserves.
  For the stable curve the specification leaves the spot-price formula open (``derived
  from the two token-relative prices implied by the current invariant''), so the snapshot
  carries the two ratios as data.
\<close>

record Pair =
  reserve0 :: "Token CurrencyAmount"
  reserve1 :: "Token CurrencyAmount"
  curveId :: int
  swapFee :: nat
  amplificationCoefficient :: "nat option"
  token0Price_ratio :: Fraction
  token1Price_ratio :: Fraction

definition token0 :: "Pair \<Rightarrow> Token" where
  "token0 pair = currency (reserve0 pair)"

definition token1 :: "Pair \<Rightarrow> Token" where
  "token1 pair = currency (reserve1 pair)"

definition Pair_chainId :: "Pair \<Rightarrow> int" where
  "Pair_chainId pair = chainId (token0 pair)"

definition involvesToken :: "Pair \<Rightarrow> Token \<Rightarrow> bool" where
  "involvesToken pair token \<longleftrightarrow> Token_equals token (token0 pair) \<or> Token_equals token (token1 pair)"

definition token0Price :: "Pair \<Rightarrow> Price" where
  "token0Price pair =
     Price_new (IsToken (token0 pair)) (IsToken (token1 pair))
       (denominator (token0Price_ratio pair)) (numerator (token0Price_ratio pair))"

definition token1Price :: "Pair \<Rightarrow> Price" where
  "token1Price pair =
     Price_new (IsToken (token1 pair)) (IsToken (token0 pair))
       (denominator (token1Price_ratio pair)) (numerator (token1Price_ratio pair))"

section \<open>Route\<close>

text \<open>
  The constructor's loop over \<open>pairs.entries()\<close>: \<open>i\<close> is the index of the pair,
  \<open>path\<close> the tokens visited so far (\<open>path[i]\<close> is its last element, since one token
  is pushed per pair).
\<close>

fun path_loop :: "nat \<Rightarrow> Token list \<Rightarrow> Pair list \<Rightarrow> error + Token list" where
  "path_loop i path [] = Inr path"
| "path_loop i path (pair # rest) =
     (let currentInput = path ! i in
      if \<not> (Token_equals currentInput (token0 pair) \<or> Token_equals currentInput (token1 pair))
      then Inl (InvariantFailed ''PATH'')
      else let out = (if Token_equals currentInput (token0 pair) then token1 pair else token0 pair)
           in path_loop (i + 1) (path @ [out]) rest)"

text \<open>
  A route. \<open>midPrice_memo\<close> is the private field \<open>_midPrice\<close>; \<open>output\<close> is optional
  because the constructor tests \<open>typeof output === 'undefined'\<close>.
\<close>

record Route =
  pairs :: "Pair list"
  path :: "Token list"
  input :: Currency
  "output" :: "Currency option"
  midPrice_memo :: "Price option"

definition Route_new :: "Pair list \<Rightarrow> Currency \<Rightarrow> Currency option \<Rightarrow> error + Route" where
  "Route_new ps inp outp =
     (if \<not> length ps > 0 then Inl (InvariantFailed ''PAIRS'')
      else let cid = Pair_chainId (ps ! 0) in
        if \<not> list_all (\<lambda>pair. Pair_chainId pair = cid) ps then Inl (InvariantFailed ''CHAIN_IDS'')
        else let wrappedInput = wrapped inp in
          if \<not> involvesToken (ps ! 0) wrappedInput then Inl (InvariantFailed ''INPUT'')
          else if \<not> (case outp of None \<Rightarrow> True
                        | Some out \<Rightarrow> involvesToken (ps ! (length ps - 1)) (wrapped out))
          then Inl (InvariantFailed ''OUTPUT'')
          else (case path_loop 0 [wrappedInput] ps of
                  Inl e \<Rightarrow> Inl e
                | Inr pth \<Rightarrow>
                    Inr \<lparr>pairs = ps, path = pth, input = inp, output = outp,
                         midPrice_memo = None\<rparr>))"

text \<open>
  The private helper \<open>_getPrice\<close>: the result is \<open>undefined\<close> (\<open>None\<close>) when the curve
  id is neither 0 nor 1.
\<close>

definition getPrice :: "Token \<Rightarrow> Pair \<Rightarrow> Price option" where
  "getPrice token pair =
     (if curveId pair = 0 then
        Some (if Token_equals token (token0 pair)
              then Price_new (IsToken (currency (reserve0 pair))) (IsToken (currency (reserve1 pair)))
                     (quotient (reserve0 pair)) (quotient (reserve1 pair))
              else Price_new (IsToken (currency (reserve1 pair))) (IsToken (currency (reserve0 pair)))
                     (quotient (reserve1 pair)) (quotient (reserve0 pair)))
      else if curveId pair = 1 then
        Some (if Token_equals token (token0 pair) then token0Price pair else token1Price pair)
      else None)"

text \<open>
  \<open>prices.slice(1).reduce((accumulator, currentValue) => accumulator.multiply(currentValue),
  prices[0])\<close>. Calling \<open>multiply\<close> on an undefined accumulator, or reading the base
  currency of an undefined argument inside \<open>multiply\<close>, is a \<open>TypeError\<close>.
\<close>

fun reduce_multiply :: "Price option \<Rightarrow> Price option list \<Rightarrow> error + Price option" where
  "reduce_multiply accumulator [] = Inr accumulator"
| "reduce_multiply accumulator (currentValue # rest) =
     (case accumulator of
        None \<Rightarrow> Inl TypeError
      | Some a \<Rightarrow>
          (case currentValue of
             None \<Rightarrow> Inl TypeError
           | Some c \<Rightarrow>
               (case Price_multiply a c of
                  Inl e \<Rightarrow> Inl e
                | Inr p \<Rightarrow> reduce_multiply (Some p) rest)))"

text \<open>
  The first loop of the getter: \<open>prices.push(this._getPrice(this.path[i], pair))\<close> for
  every pair and its index. (\<open>path[i]\<close> is in range for every route the constructor
  returns, whose path has one token more than there are pairs.)
\<close>

definition hop_prices :: "Route \<Rightarrow> Price option list" where
  "hop_prices this = map (\<lambda>(i, pair). getPrice (path this ! i) pair) (enumerate 0 (pairs this))"

text \<open>
  The getter \<open>midPrice\<close>, returning the price and the route with its memo field set.
  Reading \<open>reduced.denominator\<close> of an undefined \<open>reduced\<close>, or building a \<open>Price\<close>
  whose quote currency is undefined, is a \<open>TypeError\<close>.
\<close>

definition midPrice :: "Route \<Rightarrow> error + (Price \<times> Route)" where
  "midPrice this =
     (case midPrice_memo this of
        Some p \<Rightarrow> Inr (p, this)
      | None \<Rightarrow>
          (let prices = hop_prices this in
           case reduce_multiply (case prices of [] \<Rightarrow> None | p0 # _ \<Rightarrow> p0) (drop 1 prices) of
             Inl e \<Rightarrow> Inl e
           | Inr None \<Rightarrow> Inl TypeError
           | Inr (Some reduced) \<Rightarrow>
               (case output this of
                  None \<Rightarrow> Inl TypeError
                | Some out \<Rightarrow>
                    (let p = Price_new (input this) out (denominator reduced) (numerator reduced)
                     in Inr (p, this\<lparr>midPrice_memo := Some p\<rparr>)))))"

definition Route_chainId :: "Route \<Rightarrow> int" where
  "Route_chainId this = Pair_chainId (pairs this ! 0)"

section \<open>Trade\<close>

datatype TradeType = EXACT_INPUT | EXACT_OUTPUT

text \<open>
  Modelled from the spec: the Trade class (\<open>./entities\<close>) is missing from the sources.
  A trade is a route, the amounts on both sides and the trade type. The two slippage
  bounds follow section 4.3: \<open>maximumAmountIn\<close> is, for EXACT_OUTPUT, the computed input
  increased by the slippage fraction and rounded up, and for EXACT_INPUT the exact
  supplied input; \<open>minimumAmountOut\<close> is, for EXACT_INPUT, the computed output reduced by
  the slippage fraction and rounded down, and for EXACT_OUTPUT the exact requested output.
\<close>

record Trade =
  route :: Route
  tradeType :: TradeType
  inputAmount :: "Currency CurrencyAmount"
  outputAmount :: "Currency CurrencyAmount"

definition maximumAmountIn :: "Trade \<Rightarrow> Percent \<Rightarrow> Currency CurrencyAmount" where
  "maximumAmountIn trade slippage =
     (case tradeType trade of
        EXACT_INPUT \<Rightarrow> inputAmount trade
      | EXACT_OUTPUT \<Rightarrow>
          (inputAmount trade)\<lparr>quotient :=
             (quotient (inputAmount trade) * (denominator slippage + numerator slippage)
                + denominator slippage - 1) div denominator slippage\<rparr>)"

definition minimumAmountOut :: "Trade \<Rightarrow> Percent \<Rightarrow> Currency CurrencyAmount" where
  "minimumAmountOut trade slippage =
     (case tradeType trade of
        EXACT_OUTPUT \<Rightarrow> outputAmount trade
      | EXACT_INPUT \<Rightarrow>
          (outputAmount trade)\<lparr>quotient :=
             (quotient (outputAmount trade) * (denominator slippage - numerator slippage))
                div denominator slippage\<rparr>)"

section \<open>Router\<close>

record TradeOptions =
  allowedSlippage :: Percent
  recipient :: string
  feeOnTransfer :: "bool option"

text \<open>The type \<open>(string | string[] | number[])[] | string\<close> of the field \<open>args\<close>.\<close>

datatype arg = AString string | AStrings "string list" | ANumbers "int list"

datatype arguments = ArgList "arg list" | ArgString string

record SwapParameters =
  methodName :: string
  args :: arguments
  "value" :: string

text \<open>
  The functions the router imports from other packages, taken as parameters:
  \<open>validateAndParseAddress\<close> (\<open>None\<close> when it throws), \<open>Payments.encodeUnwrapWETH9\<close> and
  \<open>Multicall.encodeMulticall\<close>.
\<close>

record Imports =
  validateAndParseAddress :: "string \<Rightarrow> string option"
  encodeUnwrapWETH9 :: "nat \<Rightarrow> string \<Rightarrow> string"
  encodeMulticall :: "string list \<Rightarrow> string"

text \<open>
  \<open>Router.swapCallParameters\<close>. In both branches of the switch the source calls
  \<open>calldatas.push()\<close> with no argument, which appends nothing.
\<close>

definition swapCallParameters :: "Imports \<Rightarrow> Trade \<Rightarrow> TradeOptions \<Rightarrow> error + SwapParameters" where
  "swapCallParameters lib trade options =
     (let etherIn = isNative (currency (inputAmount trade));
          etherOut = isNative (currency (outputAmount trade))
      in
      if \<not> \<not> (etherIn \<and> etherOut) then Inl (InvariantFailed ''ETHER_IN_OUT'')
      else
        (let calldatas = [] :: string list in
         case validateAndParseAddress lib (recipient options) of
           None \<Rightarrow> Inl (InvalidAddress (recipient options))
         | Some to \<Rightarrow>
             (let amountIn = toHex (maximumAmountIn trade (allowedSlippage options));
                  amountOut = toHex (minimumAmountOut trade (allowedSlippage options));
                  pth = map address (path (route trade));
                  curveIds = map curveId (pairs (route trade));
                  val = (if etherIn then amountIn else ZERO_HEX);
                  (mName, ars, calldatas) =
                    (case tradeType trade of
                       EXACT_INPUT \<Rightarrow>
                         (''swapExactForVariable'',
                          ArgList [AString amountIn, AString amountOut, AStrings pth,
                                   ANumbers curveIds, AString to],
                          calldatas @ [])
                     | EXACT_OUTPUT \<Rightarrow>
                         (''swapVariableForExact'',
                          ArgList [AString amountOut, AString amountIn, AStrings pth,
                                   ANumbers curveIds, AString to],
                          calldatas @ []))
              in
              case (if etherOut
                    then (case JSBI_BigInt amountOut of
                            None \<Rightarrow> Inl SyntaxError
                          | Some n \<Rightarrow>
                              Inr (calldatas @ [encodeUnwrapWETH9 lib n (recipient options)]))
                    else Inr calldatas) of
                Inl e \<Rightarrow> Inl e
              | Inr calldatas \<Rightarrow>
                  (if length calldatas > 1
                   then Inr \<lparr>methodName = ''multicall'',
                             args = ArgString (encodeMulticall lib calldatas),
                             value = val\<rparr>
                   else Inr \<lparr>methodName = mName, args = ars, value = val\<rparr>))))"

section \<open>Constant-product curve\<close>

text \<open>\<open>FEE_ACCURACY\<close> of constants.ts: one million, that is 100 percent.\<close>

definition FEE_ACCURACY :: nat where
  "FEE_ACCURACY = 1000000"

text \<open>
  Modelled from the spec: the curve math of the Pair class is missing from the sources.
  Section 4.1, on raw integer reserves \<open>rIn\<close>, \<open>rOut\<close> and a fee \<open>f\<close> in parts per
  \<open>FEE_ACCURACY\<close>: \<open>amountInAfterFee = amountIn * (FEE_ACCURACY - f)\<close> and
  \<open>amountOut = floor(amountInAfterFee * rOut / (rIn * FEE_ACCURACY + amountInAfterFee))\<close>;
  the exact-output direction is the algebraic inverse, rounded up. A zero reserve, or an
  output that is not below the available reserve, is \<open>InsufficientLiquidity\<close>.
\<close>

definition quoteOutputForInput :: "nat \<Rightarrow> nat \<Rightarrow> nat \<Rightarrow> nat \<Rightarrow> error + nat" where
  "quoteOutputForInput rIn rOut f amountIn =
     (if rIn = 0 \<or> rOut = 0 then Inl InsufficientLiquidity
      else
        (let amountInAfterFee = amountIn * (FEE_ACCURACY - f);
             amountOut = (amountInAfterFee * rOut) div (rIn * FEE_ACCURACY + amountInAfterFee)
         in if amountOut \<ge> rOut then Inl InsufficientLiquidity else Inr amountOut))"

definition quoteInputForOutput :: "nat \<Rightarrow> nat \<Rightarrow> nat \<Rightarrow> nat \<Rightarrow> error + nat" where
  "quoteInputForOutput rIn rOut f amountOut =
     (if rIn = 0 \<or> rOut = 0 \<or> amountOut \<ge> rOut then Inl InsufficientLiquidity
      else
        (let num = rIn * FEE_ACCURACY * amountOut;
             den = (rOut - amountOut) * (FEE_ACCURACY - f)
         in Inr ((num + den - 1) div den)))"

section \<open>The route contract in the specification's words\<close>

text \<open>
  Section 4.2 of the specification: ``each consecutive pair shares exactly one token with
  its predecessor's resolved output token, building the path incrementally''. Read from
  the specification, not from the constructor: \<open>spec_resolved_output\<close> is the token a
  pair gives for the token that enters it, \<open>spec_connected\<close> says that every pair holds
  the token that enters it, \<open>spec_path\<close> lists the tokens visited, and
  \<open>spec_hop_prices\<close> the spot price of every hop, oriented from the token that enters
  the hop.
\<close>

definition spec_resolved_output :: "Token \<Rightarrow> Pair \<Rightarrow> Token" where
  "spec_resolved_output t pair = (if Token_equals t (token0 pair) then token1 pair else token0 pair)"

fun spec_connected :: "Token \<Rightarrow> Pair list \<Rightarrow> bool" where
  "spec_connected t [] = True"
| "spec_connected t (pair # rest) =
     (involvesToken pair t \<and> spec_connected (spec_resolved_output t pair) rest)"

fun spec_path :: "Token \<Rightarrow> Pair list \<Rightarrow> Token list" where
  "spec_path t [] = [t]"
| "spec_path t (pair # rest) = t # spec_path (spec_resolved_output t pair) rest"

fun spec_hop_prices :: "Token \<Rightarrow> Pair list \<Rightarrow> Price option list" where
  "spec_hop_prices t [] = []"
| "spec_hop_prices t (pair # rest) =
     getPrice t pair # spec_hop_prices (spec_resolved_output t pair) rest"

section \<open>Example values\<close>

text \<open>
  Concrete tokens, pools, routes and trades on chain 43114, used to run the definitions:
  the two stablecoins of the fetcher tests, the wrapped native token, and the reserves
  1,000,000/950,000 and 2,000,000/2,100,000 of the specification's route scenario.
\<close>

definition ex_USDC :: Token where
  "ex_USDC = \<lparr>chainId = 43114, address = ''0x2B0d36FACD61B71CC05ab8F3D2355ec3631C0dd5'',
              decimals = 6\<rparr>"

definition ex_USDT :: Token where
  "ex_USDT = \<lparr>chainId = 43114, address = ''0xfbC22278A96299D91d41C453234d97b4F5Eb9B2d'',
              decimals = 6\<rparr>"

definition ex_WAVAX :: Token where
  "ex_WAVAX = \<lparr>chainId = 43114, address = ''0xB31f66AA3C1e785363F0875A1B74E27b85FD66c7'',
               decimals = 18\<rparr>"

definition ex_AVAX :: Currency where
  "ex_AVAX = IsNative 43114 ex_WAVAX"

definition ex_pair1 :: Pair where
  "ex_pair1 =
     \<lparr>reserve0 = \<lparr>currency = ex_USDC, quotient = 1000000\<rparr>,
      reserve1 = \<lparr>currency = ex_USDT, quotient = 950000\<rparr>,
      curveId = 0, swapFee = 3000, amplificationCoefficient = None,
      token0Price_ratio = \<lparr>numerator = 950000, denominator = 1000000\<rparr>,
      token1Price_ratio = \<lparr>numerator = 1000000, denominator = 950000\<rparr>\<rparr>"

definition ex_pair2 :: Pair where
  "ex_pair2 =
     \<lparr>reserve0 = \<lparr>currency = ex_WAVAX, quotient = 2000000\<rparr>,
      reserve1 = \<lparr>currency = ex_USDT, quotient = 2100000\<rparr>,
      curveId = 0, swapFee = 3000, amplificationCoefficient = None,
      token0Price_ratio = \<lparr>numerator = 2100000, denominator = 2000000\<rparr>,
      token1Price_ratio = \<lparr>numerator = 2000000, denominator = 2100000\<rparr>\<rparr>"

definition ex_route_USDC_AVAX :: Route where
  "ex_route_USDC_AVAX =
     \<lparr>pairs = [ex_pair1, ex_pair2], path = [ex_USDC, ex_USDT, ex_WAVAX],
      input = IsToken ex_USDC, output = Some ex_AVAX, midPrice_memo = None\<rparr>"

definition ex_route_AVAX_USDT :: Route where
  "ex_route_AVAX_USDT =
     \<lparr>pairs = [ex_pair2], path = [ex_WAVAX, ex_USDT],
      input = ex_AVAX, output = Some (IsToken ex_USDT), midPrice_memo = None\<rparr>"

definition ex_route_AVAX_AVAX :: Route where
  "ex_route_AVAX_AVAX =
     \<lparr>pairs = [ex_pair2], path = [ex_WAVAX, ex_USDT],
      input = ex_AVAX, output = Some ex_AVAX, midPrice_memo = None\<rparr>"

definition ex_route_USDC_USDT :: Route where
  "ex_route_USDC_USDT =
     \<lparr>pairs = [ex_pair1], path = [ex_USDC, ex_USDT],
      input = IsToken ex_USDC, output = Some (IsToken ex_USDT), midPrice_memo = None\<rparr>"

definition ex_trade_token_native :: Trade where
  "ex_trade_token_native =
     \<lparr>route = ex_route_USDC_AVAX, tradeType = EXACT_INPUT,
      inputAmount = \<lparr>currency = IsToken ex_USDC, quotient = 1000\<rparr>,
      outputAmount = \<lparr>currency = ex_AVAX, quotient = 897\<rparr>\<rparr>"

definition ex_trade_native_token :: Trade where
  "ex_trade_native_token =
     \<lparr>route = ex_route_AVAX_USDT, tradeType = EXACT_INPUT,
      inputAmount = \<lparr>currency = ex_AVAX, quotient = 1000\<rparr>,
      outputAmount = \<lparr>currency = IsToken ex_USDT, quotient = 1046\<rparr>\<rparr>"

definition ex_trade_native_native :: Trade where
  "ex_trade_native_native =
     \<lparr>route = ex_route_AVAX_AVAX, tradeType = EXACT_INPUT,
      inputAmount = \<lparr>currency = ex_AVAX, quotient = 1000\<rparr>,
      outputAmount = \<lparr>currency = ex_AVAX, quotient = 1046\<rparr>\<rparr>"

definition ex_trade_exact_output :: Trade where
  "ex_trade_exact_output =
     \<lparr>route = ex_route_USDC_USDT, tradeType = EXACT_OUTPUT,
      inputAmount = \<lparr>currency = IsToken ex_USDC, quotient = 1000\<rparr>,
      outputAmount = \<lparr>currency = IsToken ex_USDT, quotient = 946\<rparr>\<rparr>"

definition ex_recipient :: string where
  "ex_recipient = ''0x70997970C51812dc3A010C7d01b50e0d17dc79C8''"

definition ex_options :: TradeOptions where
  "ex_options =
     \<lparr>allowedSlippage = \<lparr>numerator = 0, denominator = 1\<rparr>,
      recipient = ex_recipient, feeOnTransfer = None\<rparr>"

definition ex_options_slippage :: TradeOptions where
  "ex_options_slippage =
     \<lparr>allowedSlippage = \<lparr>numerator = 50, denominator = 10000\<rparr>,
      recipient = ex_recipient, feeOnTransfer = None\<rparr>"

text \<open>Stand-ins for the imported functions: every address is accepted as it is.\<close>

definition ex_lib :: Imports where
  "ex_lib =
     \<lparr>validateAndParseAddress = (\<lambda>a. Some a),
      encodeUnwrapWETH9 = (\<lambda>n r. ''unwrapWETH9('' @ toString16 n @ '','' @ r @ '')''),
      encodeMulticall = (\<lambda>calls. ''multicall('' @ concat calls @ '')'')\<rparr>"

definition ex_pair3 :: Pair where
  "ex_pair3 =
     \<lparr>reserve0 = \<lparr>currency = ex_USDC, quotient = 500000\<rparr>,
      reserve1 = \<lparr>currency = ex_WAVAX, quotient = 40000\<rparr>,
      curveId = 0, swapFee = 3000, amplificationCoefficient = None,
      token0Price_ratio = \<lparr>numerator = 40000, denominator = 500000\<rparr>,
      token1Price_ratio = \<lparr>numerator = 500000, denominator = 40000\<rparr>\<rparr>"

text \<open>A pool of chain 1, and a pool whose curve id is neither 0 nor 1.\<close>

definition ex_pair_mainnet :: Pair where
  "ex_pair_mainnet =
     \<lparr>reserve0 = \<lparr>currency = ex_USDT\<lparr>chainId := 1\<rparr>, quotient = 1000\<rparr>,
      reserve1 = \<lparr>currency = ex_WAVAX\<lparr>chainId := 1\<rparr>, quotient = 1000\<rparr>,
      curveId = 0, swapFee = 3000, amplificationCoefficient = None,
      token0Price_ratio = \<lparr>numerator = 1000, denominator = 1000\<rparr>,
      token1Price_ratio = \<lparr>numerator = 1000, denominator = 1000\<rparr>\<rparr>"

definition ex_pair_curve2 :: Pair where
  "ex_pair_curve2 = ex_pair2\<lparr>curveId := 2\<rparr>"

text \<open>
  A stable pool of the two stablecoins (curve id 1, with the default amplification
  coefficient of constants.ts), and the route from USDC to native AVAX through it.
\<close>

definition ex_pair_stable :: Pair where
  "ex_pair_stable =
     \<lparr>reserve0 = \<lparr>currency = ex_USDC, quotient = 1000000\<rparr>,
      reserve1 = \<lparr>currency = ex_USDT, quotient = 950000\<rparr>,
      curveId = 1, swapFee = 100, amplificationCoefficient = Some 100000,
      token0Price_ratio = \<lparr>numerator = 999, denominator = 1000\<rparr>,
      token1Price_ratio = \<lparr>numerator = 1000, denominator = 999\<rparr>\<rparr>"

definition ex_route_stable :: Route where
  "ex_route_stable =
     \<lparr>pairs = [ex_pair_stable, ex_pair2], path = [ex_USDC, ex_USDT, ex_WAVAX],
      input = IsToken ex_USDC, output = Some ex_AVAX, midPrice_memo = None\<rparr>"

section \<open>Properties of the constant-product curve\<close>

lemma floor_quote_less:
  fixes rIn rOut g a F :: nat
  assumes "rIn * F > 0" "rOut > 0"
  shows "(a * g * rOut) div (rIn * F + a * g) < rOut"
proof -
  have "a * g * rOut < (rIn * F + a * g) * rOut"
    using assms by (simp add: add_mult_distrib)
  then show ?thesis using assms
    by (simp add: div_less_iff_less_mult)
qed

lemma ceil_div_le_iff:
  fixes x d b :: nat
  assumes "d > 0"
  shows "(x + d - 1) div d \<le> b \<longleftrightarrow> x \<le> b * d"
proof -
  have "(x + d - 1) div d \<le> b \<longleftrightarrow> (x + d - 1) div d < b + 1" by auto
  also have "\<dots> \<longleftrightarrow> x + d - 1 < (b + 1) * d"
    using assms by (simp add: div_less_iff_less_mult)
  also have "\<dots> \<longleftrightarrow> x \<le> b * d" using assms by auto
  finally show ?thesis .
qed

lemma floor_quote_ge_iff:
  fixes rIn rOut g b F out :: nat
  assumes "rIn * F > 0" "out < rOut"
  shows "out \<le> (b * g * rOut) div (rIn * F + b * g) \<longleftrightarrow> rIn * F * out \<le> b * ((rOut - out) * g)"
proof -
  have D: "rIn * F + b * g > 0" using assms by simp
  have "out \<le> (b * g * rOut) div (rIn * F + b * g) \<longleftrightarrow> out * (rIn * F + b * g) \<le> b * g * rOut"
    using D by (simp add: less_eq_div_iff_mult_less_eq)
  also have "\<dots> \<longleftrightarrow> rIn * F * out + b * g * out \<le> b * g * rOut"
    by (simp add: algebra_simps)
  also have "\<dots> \<longleftrightarrow> rIn * F * out \<le> b * g * rOut - b * g * out"
  proof -
    have "b * g * out \<le> b * g * rOut" using assms(2) by simp
    then show ?thesis by linarith
  qed
  also have "b * g * rOut - b * g * out = b * ((rOut - out) * g)"
    by (simp add: algebra_simps diff_mult_distrib2)
  finally show ?thesis .
qed

lemma quoteOutputForInput_eq:
  assumes "0 < rIn" "0 < rOut"
  shows "quoteOutputForInput rIn rOut f b =
           Inr ((b * (FEE_ACCURACY - f) * rOut) div (rIn * FEE_ACCURACY + b * (FEE_ACCURACY - f)))"
proof -
  have "rIn * FEE_ACCURACY > 0" using assms by (simp add: FEE_ACCURACY_def)
  from floor_quote_less [OF this assms(2)] show ?thesis
    using assms by (simp add: quoteOutputForInput_def Let_def not_le)
qed

text \<open>
  C8, as stated, fails: the round trip is not at least the input. With reserves 10 and
  10, no fee and an input of 100 the output is 9, and the input quoted for an output of 9
  is 90.
\<close>

theorem constantProduct_round_trip_counterexample:
  "quoteOutputForInput 10 10 0 100 = Inr 9
   \<and> quoteInputForOutput 10 10 0 9 = Inr 90
   \<and> \<not> (90::nat) \<ge> 100"
  by (simp add: quoteOutputForInput_def quoteInputForOutput_def FEE_ACCURACY_def)

text \<open>
  C8, amended: for positive reserves, a fee below \<open>FEE_ACCURACY\<close> and a positive input,
  \<open>quoteOutputForInput\<close> returns the floor of the stated quotient, which is strictly
  below \<open>rOut\<close>; \<open>quoteInputForOutput\<close> of that output returns the inverse rounded up,
  namely the least input whose quoted output reaches that output; and this round trip is
  at most (not at least) the original input.
\<close>

theorem constantProduct_round_trip:
  assumes "0 < rIn" "0 < rOut" "f < FEE_ACCURACY" "0 < amountIn"
  shows "\<exists>amountOut back.
           quoteOutputForInput rIn rOut f amountIn = Inr amountOut
         \<and> amountOut = (amountIn * (1000000 - f) * rOut)
                           div (rIn * 1000000 + amountIn * (1000000 - f))
         \<and> amountOut < rOut
         \<and> quoteInputForOutput rIn rOut f amountOut = Inr back
         \<and> (\<forall>b. (\<exists>out'. quoteOutputForInput rIn rOut f b = Inr out' \<and> amountOut \<le> out')
                  \<longleftrightarrow> back \<le> b)
         \<and> back \<le> amountIn"
proof -
  let ?g = "FEE_ACCURACY - f"
  let ?out = "(amountIn * ?g * rOut) div (rIn * FEE_ACCURACY + amountIn * ?g)"
  let ?den = "(rOut - ?out) * ?g"
  let ?inp = "(rIn * FEE_ACCURACY * ?out + ?den - 1) div ?den"
  have P: "rIn * FEE_ACCURACY > 0" using assms by (simp add: FEE_ACCURACY_def)
  have lt: "?out < rOut" by (rule floor_quote_less [OF P assms(2)])
  have den: "?den > 0" using lt assms(3) by simp
  have q1: "quoteOutputForInput rIn rOut f amountIn = Inr ?out"
    by (rule quoteOutputForInput_eq [OF assms(1,2)])
  have q2: "quoteInputForOutput rIn rOut f ?out = Inr ?inp"
    using assms(1,2) lt by (simp add: quoteInputForOutput_def Let_def)
  have least: "(\<exists>out'. quoteOutputForInput rIn rOut f b = Inr out' \<and> ?out \<le> out') \<longleftrightarrow> ?inp \<le> b" for b
  proof -
    have "(\<exists>out'. quoteOutputForInput rIn rOut f b = Inr out' \<and> ?out \<le> out')
          \<longleftrightarrow> ?out \<le> (b * ?g * rOut) div (rIn * FEE_ACCURACY + b * ?g)"
      by (simp add: quoteOutputForInput_eq [OF assms(1,2)])
    also have "\<dots> \<longleftrightarrow> rIn * FEE_ACCURACY * ?out \<le> b * ?den"
      by (rule floor_quote_ge_iff [OF P lt])
    also have "\<dots> \<longleftrightarrow> ?inp \<le> b"
      by (rule ceil_div_le_iff [OF den, symmetric])
    finally show ?thesis .
  qed
  have "?inp \<le> amountIn" using least [of amountIn] q1 by simp
  with q1 q2 lt least have "\<exists>amountOut back.
           quoteOutputForInput rIn rOut f amountIn = Inr amountOut
         \<and> amountOut = ?out
         \<and> amountOut < rOut
         \<and> quoteInputForOutput rIn rOut f amountOut = Inr back
         \<and> (\<forall>b. (\<exists>out'. quoteOutputForInput rIn rOut f b = Inr out' \<and> amountOut \<le> out')
                  \<longleftrightarrow> back \<le> b)
         \<and> back \<le> amountIn" by blast
  then show ?thesis by (simp add: FEE_ACCURACY_def)
qed

theorem constantProduct_round_trip_witness:
  "(0::nat) < 1000000 \<and> (0::nat) < 950000 \<and> 3000 < FEE_ACCURACY \<and> (0::nat) < 1000
   \<and> quoteOutputForInput 1000000 950000 3000 1000 = Inr 946
   \<and> quoteInputForOutput 1000000 950000 3000 946 = Inr 1000"
  using constantProduct_round_trip [of 1000000 950000 3000 1000]
  by (simp add: quoteOutputForInput_def quoteInputForOutput_def FEE_ACCURACY_def)

section \<open>Properties of the hexadecimal encoding\<close>

lemma hexValue_hexDigit: "d < 16 \<Longrightarrow> hexValue (hexDigit d) = Some d"
proof -
  assume "d < 16"
  then have "d = 0 \<or> d = 1 \<or> d = 2 \<or> d = 3 \<or> d = 4 \<or> d = 5 \<or> d = 6 \<or> d = 7
      \<or> d = 8 \<or> d = 9 \<or> d = 10 \<or> d = 11 \<or> d = 12 \<or> d = 13 \<or> d = 14 \<or> d = 15"
    by arith
  then show ?thesis
    by (auto simp: hexValue_def hexDigit_def)
qed

lemma parseHex_append:
  "parseHex acc (xs @ [c]) =
     (case parseHex acc xs of None \<Rightarrow> None
      | Some v \<Rightarrow> (case hexValue c of None \<Rightarrow> None | Some d \<Rightarrow> Some (16 * v + d)))"
  by (induction xs arbitrary: acc) (auto split: option.splits)

lemma parseHex_toString16: "parseHex 0 (toString16 n) = Some n"
proof (induction n rule: toString16.induct)
  case (1 n)
  show ?case
  proof (cases "n < 16")
    case True
    then show ?thesis
      by (subst toString16.simps) (simp add: hexValue_hexDigit)
  next
    case False
    then have "parseHex 0 (toString16 (n div 16)) = Some (n div 16)" by (rule "1.IH")
    with False show ?thesis
      by (subst toString16.simps) (simp add: parseHex_append hexValue_hexDigit)
  qed
qed

lemma toString16_nonempty: "toString16 n \<noteq> []"
  by (subst toString16.simps) simp

text \<open>
  The big integer the router parses back from a hexadecimal amount is the amount: the
  \<open>SyntaxError\<close> branch of the model is never taken.
\<close>

lemma JSBI_BigInt_toHex: "JSBI_BigInt (toHex a) = Some (quotient a)"
  by (simp add: JSBI_BigInt_def toHex_def toString16_nonempty parseHex_toString16)

section \<open>Properties of the router\<close>

text \<open>
  The router returns a result whenever the trade is not native-to-native and the
  recipient is a valid address.
\<close>

lemma swapCallParameters_returns:
  assumes "\<not> (isNative (currency (inputAmount trade)) \<and> isNative (currency (outputAmount trade)))"
    and "validateAndParseAddress lib (recipient options) = Some to"
  shows "\<exists>r. swapCallParameters lib trade options = Inr r"
  using assms
  by (cases "tradeType trade")
     (auto simp: swapCallParameters_def Let_def JSBI_BigInt_toHex)

text \<open>
  The list of calls never holds more than the unwrap call, since \<open>calldatas.push()\<close>
  appends nothing: the method is always the swap method of the trade type.
\<close>

lemma swapCallParameters_methodName:
  assumes "swapCallParameters lib trade options = Inr r"
  shows "methodName r =
           (case tradeType trade of EXACT_INPUT \<Rightarrow> ''swapExactForVariable''
                                 | EXACT_OUTPUT \<Rightarrow> ''swapVariableForExact'')"
  using assms
  by (cases "tradeType trade")
     (auto simp: swapCallParameters_def Let_def JSBI_BigInt_toHex
           split: option.splits if_splits)

text \<open>
  C1. The claim: for a trade from a token to the native asset the result is the batched
  \<open>multicall\<close> method wrapping the swap call and then the unwrap call. The code does
  not do so: on the trade of 1000 USDC for native AVAX through two pools it returns the
  plain swap method with the five swap arguments, and the unwrap call is dropped.
\<close>

theorem swapCallParameters_token_to_native_not_batched:
  "swapCallParameters ex_lib ex_trade_token_native ex_options =
     Inr \<lparr>methodName = ''swapExactForVariable'',
          args = ArgList [AString ''0x3e8'', AString ''0x381'',
                          AStrings [address ex_USDC, address ex_USDT, address ex_WAVAX],
                          ANumbers [0, 0], AString ex_recipient],
          value = ''0x0''\<rparr>"
  by (simp add: swapCallParameters_def Let_def ex_lib_def ex_trade_token_native_def ex_options_def
        ex_route_USDC_AVAX_def ex_AVAX_def ex_pair1_def ex_pair2_def
        maximumAmountIn_def minimumAmountOut_def toHex_def JSBI_BigInt_def ZERO_HEX_def
        toString16.simps hexDigit_def hexValue_def)

text \<open>
  C2. For every trade and options the router accepts, the field \<open>value\<close> is the
  hexadecimal encoding of \<open>maximumAmountIn(allowedSlippage)\<close> when the input currency
  is native and \<open>0x0\<close> otherwise; for an EXACT_INPUT trade with native input and
  non-native output (at any slippage, zero included) it is the encoding of the input
  amount, and the method is the non-batched swap method.
\<close>

theorem swapCallParameters_value:
  assumes "swapCallParameters lib trade options = Inr r"
  shows "value r =
           (if isNative (currency (inputAmount trade))
            then toHex (maximumAmountIn trade (allowedSlippage options))
            else ''0x0'')
       \<and> (tradeType trade = EXACT_INPUT \<and> isNative (currency (inputAmount trade))
            \<and> \<not> isNative (currency (outputAmount trade))
          \<longrightarrow> value r = toHex (inputAmount trade)
              \<and> methodName r = ''swapExactForVariable'')"
  using assms
  by (cases "tradeType trade")
     (auto simp: swapCallParameters_def Let_def JSBI_BigInt_toHex ZERO_HEX_def
                 maximumAmountIn_def
           split: option.splits if_splits)

theorem swapCallParameters_value_witness:
  "swapCallParameters ex_lib ex_trade_native_token ex_options =
     Inr \<lparr>methodName = ''swapExactForVariable'',
          args = ArgList [AString ''0x3e8'', AString ''0x416'',
                          AStrings [address ex_WAVAX, address ex_USDT],
                          ANumbers [0], AString ex_recipient],
          value = ''0x3e8''\<rparr>
   \<and> numerator (allowedSlippage ex_options) = 0
   \<and> toHex (inputAmount ex_trade_native_token) = ''0x3e8''"
proof -
  have run: "swapCallParameters ex_lib ex_trade_native_token ex_options =
     Inr \<lparr>methodName = ''swapExactForVariable'',
          args = ArgList [AString ''0x3e8'', AString ''0x416'',
                          AStrings [address ex_WAVAX, address ex_USDT],
                          ANumbers [0], AString ex_recipient],
          value = ''0x3e8''\<rparr>"
    by (simp add: swapCallParameters_def Let_def ex_lib_def ex_trade_native_token_def ex_options_def
        ex_route_AVAX_USDT_def ex_AVAX_def ex_pair2_def
        maximumAmountIn_def minimumAmountOut_def toHex_def JSBI_BigInt_def ZERO_HEX_def
        toString16.simps hexDigit_def hexValue_def)
  have slippage: "numerator (allowedSlippage ex_options) = 0"
    by (simp add: ex_options_def)
  have hex: "toHex (inputAmount ex_trade_native_token) = ''0x3e8''"
    by (simp add: ex_trade_native_token_def toHex_def toString16.simps hexDigit_def)
  from swapCallParameters_value [OF run] run slippage hex show ?thesis
    by simp
qed

text \<open>
  C3. For every trade the router accepts: an EXACT_INPUT trade gives the method
  \<open>swapExactForVariable\<close> with the arguments (amountIn, amountOut, path, curveIds,
  recipient), an EXACT_OUTPUT trade the method \<open>swapVariableForExact\<close> with the
  arguments (amountOut, amountIn, path, curveIds, recipient), where amountIn and amountOut
  are the hexadecimal encodings of \<open>maximumAmountIn\<close> and \<open>minimumAmountOut\<close> at the
  allowed slippage, path is the list of the addresses of the route's tokens in order,
  curveIds the list of the pairs' curve ids in order, and recipient the address that
  \<open>validateAndParseAddress\<close> returns for the recipient of the options.
\<close>

theorem swapCallParameters_method_and_args:
  assumes "swapCallParameters lib trade options = Inr r"
  shows "\<exists>to. validateAndParseAddress lib (recipient options) = Some to
       \<and> (tradeType trade = EXACT_INPUT \<longrightarrow>
            methodName r = ''swapExactForVariable''
          \<and> args r = ArgList
               [AString (toHex (maximumAmountIn trade (allowedSlippage options))),
                AString (toHex (minimumAmountOut trade (allowedSlippage options))),
                AStrings (map address (path (route trade))),
                ANumbers (map curveId (pairs (route trade))),
                AString to])
       \<and> (tradeType trade = EXACT_OUTPUT \<longrightarrow>
            methodName r = ''swapVariableForExact''
          \<and> args r = ArgList
               [AString (toHex (minimumAmountOut trade (allowedSlippage options))),
                AString (toHex (maximumAmountIn trade (allowedSlippage options))),
                AStrings (map address (path (route trade))),
                ANumbers (map curveId (pairs (route trade))),
                AString to])"
  using assms
  by (cases "tradeType trade")
     (auto simp: swapCallParameters_def Let_def JSBI_BigInt_toHex
           split: option.splits if_splits)

theorem swapCallParameters_method_and_args_witness:
  "swapCallParameters ex_lib ex_trade_exact_output ex_options_slippage =
     Inr \<lparr>methodName = ''swapVariableForExact'',
          args = ArgList [AString ''0x3b2'', AString ''0x3ed'',
                          AStrings [address ex_USDC, address ex_USDT],
                          ANumbers [0], AString ex_recipient],
          value = ''0x0''\<rparr>
   \<and> toHex (maximumAmountIn ex_trade_exact_output (allowedSlippage ex_options_slippage)) = ''0x3ed''
   \<and> toHex (minimumAmountOut ex_trade_exact_output (allowedSlippage ex_options_slippage)) = ''0x3b2''"
proof -
  have run: "swapCallParameters ex_lib ex_trade_exact_output ex_options_slippage =
     Inr \<lparr>methodName = ''swapVariableForExact'',
          args = ArgList [AString ''0x3b2'', AString ''0x3ed'',
                          AStrings [address ex_USDC, address ex_USDT],
                          ANumbers [0], AString ex_recipient],
          value = ''0x0''\<rparr>"
    by (simp add: swapCallParameters_def Let_def ex_lib_def ex_trade_exact_output_def
        ex_options_slippage_def ex_route_USDC_USDT_def ex_pair1_def
        maximumAmountIn_def minimumAmountOut_def toHex_def JSBI_BigInt_def ZERO_HEX_def
        toString16.simps hexDigit_def hexValue_def)
  have exact_output: "tradeType ex_trade_exact_output = EXACT_OUTPUT"
    by (simp add: ex_trade_exact_output_def)
  from swapCallParameters_method_and_args [OF run] exact_output run show ?thesis
    by auto
qed

text \<open>
  C4. The router fails with the error \<open>NativeInNativeOut\<close> (the invariant
  \<open>ETHER_IN_OUT\<close>) if and only if the input currency and the output currency of the
  trade are both native, and then it returns no \<open>SwapParameters\<close>.
\<close>

theorem swapCallParameters_NativeInNativeOut:
  "(swapCallParameters lib trade options = Inl NativeInNativeOut
      \<longleftrightarrow> isNative (currency (inputAmount trade)) \<and> isNative (currency (outputAmount trade)))
   \<and> (swapCallParameters lib trade options = Inl NativeInNativeOut
      \<longrightarrow> (\<forall>r. swapCallParameters lib trade options \<noteq> Inr r))"
  by (cases "tradeType trade")
     (auto simp: swapCallParameters_def Let_def JSBI_BigInt_toHex
           split: option.splits if_splits)

theorem swapCallParameters_NativeInNativeOut_witness:
  "swapCallParameters ex_lib ex_trade_native_native ex_options = Inl NativeInNativeOut
   \<and> isNative (currency (inputAmount ex_trade_native_native))
   \<and> isNative (currency (outputAmount ex_trade_native_native))
   \<and> swapCallParameters ex_lib ex_trade_native_token ex_options \<noteq> Inl NativeInNativeOut"
  using swapCallParameters_NativeInNativeOut [of ex_lib ex_trade_native_native ex_options]
        swapCallParameters_NativeInNativeOut [of ex_lib ex_trade_native_token ex_options]
  by (simp add: ex_trade_native_native_def ex_trade_native_token_def ex_AVAX_def)

section \<open>Facts about the example values\<close>

lemma Token_equals_refl [simp]: "Token_equals t t"
  by (simp add: Token_equals_def)

lemma ex_Token_equals [simp]:
  "\<not> Token_equals ex_USDC ex_USDT" "\<not> Token_equals ex_USDC ex_WAVAX"
  "\<not> Token_equals ex_USDT ex_USDC" "\<not> Token_equals ex_USDT ex_WAVAX"
  "\<not> Token_equals ex_WAVAX ex_USDC" "\<not> Token_equals ex_WAVAX ex_USDT"
  by (simp_all add: Token_equals_def ex_USDC_def ex_USDT_def ex_WAVAX_def)

lemma ex_tokens [simp]:
  "token0 ex_pair1 = ex_USDC" "token1 ex_pair1 = ex_USDT"
  "token0 ex_pair2 = ex_WAVAX" "token1 ex_pair2 = ex_USDT"
  "token0 ex_pair3 = ex_USDC" "token1 ex_pair3 = ex_WAVAX"
  "token0 ex_pair_curve2 = ex_WAVAX" "token1 ex_pair_curve2 = ex_USDT"
  by (simp_all add: token0_def token1_def ex_pair1_def ex_pair2_def ex_pair3_def
        ex_pair_curve2_def)

lemma ex_chainIds [simp]:
  "Pair_chainId ex_pair1 = 43114" "Pair_chainId ex_pair2 = 43114"
  "Pair_chainId ex_pair3 = 43114" "Pair_chainId ex_pair_curve2 = 43114"
  "Pair_chainId ex_pair_mainnet = 1"
  by (simp_all add: Pair_chainId_def token0_def ex_pair1_def ex_pair2_def ex_pair3_def
        ex_pair_curve2_def ex_pair_mainnet_def ex_USDC_def ex_WAVAX_def)

lemma ex_curveIds [simp]:
  "curveId ex_pair1 = 0" "curveId ex_pair2 = 0" "curveId ex_pair3 = 0"
  "curveId ex_pair_curve2 = 2"
  by (simp_all add: ex_pair1_def ex_pair2_def ex_pair3_def ex_pair_curve2_def)

lemma ex_wrapped [simp]: "wrapped ex_AVAX = ex_WAVAX" "isNative ex_AVAX"
  by (simp_all add: ex_AVAX_def)

lemma ex_reserves [simp]:
  "reserve0 ex_pair1 = \<lparr>currency = ex_USDC, quotient = 1000000\<rparr>"
  "reserve1 ex_pair1 = \<lparr>currency = ex_USDT, quotient = 950000\<rparr>"
  "reserve0 ex_pair2 = \<lparr>currency = ex_WAVAX, quotient = 2000000\<rparr>"
  "reserve1 ex_pair2 = \<lparr>currency = ex_USDT, quotient = 2100000\<rparr>"
  by (simp_all add: ex_pair1_def ex_pair2_def)

lemma ex_route_USDC_AVAX_constructed:
  "Route_new [ex_pair1, ex_pair2] (IsToken ex_USDC) (Some ex_AVAX) = Inr ex_route_USDC_AVAX"
  by (simp add: Route_new_def Let_def involvesToken_def ex_route_USDC_AVAX_def)

lemma ex_stable [simp]:
  "token0 ex_pair_stable = ex_USDC" "token1 ex_pair_stable = ex_USDT"
  "Pair_chainId ex_pair_stable = 43114" "curveId ex_pair_stable = 1"
  "token0Price ex_pair_stable = Price_new (IsToken ex_USDC) (IsToken ex_USDT) 1000 999"
  "token1Price ex_pair_stable = Price_new (IsToken ex_USDT) (IsToken ex_USDC) 999 1000"
  by (simp_all add: token0_def token1_def Pair_chainId_def token0Price_def token1Price_def
        ex_pair_stable_def ex_USDC_def)

lemma ex_route_stable_constructed:
  "Route_new [ex_pair_stable, ex_pair2] (IsToken ex_USDC) (Some ex_AVAX) = Inr ex_route_stable"
  by (simp add: Route_new_def Let_def involvesToken_def ex_route_stable_def)

section \<open>Properties of the route constructor\<close>

lemma path_loop_spec:
  assumes "length pth = Suc i"
  shows "path_loop i pth ps =
           (if spec_connected (pth ! i) ps
            then Inr (butlast pth @ spec_path (pth ! i) ps)
            else Inl DisconnectedPath)"
  using assms
proof (induction ps arbitrary: i pth)
  case Nil
  then have "pth \<noteq> []" by auto
  then have "butlast pth @ [last pth] = pth" by simp
  moreover have "last pth = pth ! i"
    using Nil \<open>pth \<noteq> []\<close> by (simp add: last_conv_nth)
  ultimately show ?case by simp
next
  case (Cons pair rest)
  let ?out = "spec_resolved_output (pth ! i) pair"
  have ne: "pth \<noteq> []" using Cons.prems by auto
  have last: "last pth = pth ! i"
    using Cons.prems ne by (simp add: last_conv_nth)
  have split: "butlast pth @ [pth ! i] = pth"
    using ne last by (metis append_butlast_last_id)
  have len: "length (pth @ [?out]) = Suc (i + 1)" using Cons.prems by simp
  have nth: "(pth @ [?out]) ! (i + 1) = ?out"
    using Cons.prems by (simp add: nth_append)
  have step: "path_loop (i + 1) (pth @ [?out]) rest =
           (if spec_connected ?out rest
            then Inr (pth @ spec_path ?out rest)
            else Inl DisconnectedPath)"
    using Cons.IH [OF len] nth by simp
  have join: "pth @ spec_path ?out rest = butlast pth @ (pth ! i) # spec_path ?out rest"
    using split by (metis append_Cons append_Nil append_assoc)
  show ?case
    using step join
    by (simp add: Let_def involvesToken_def spec_resolved_output_def)
qed

lemma path_loop_start:
  "path_loop 0 [wrapped inp] ps =
     (if spec_connected (wrapped inp) ps
      then Inr (spec_path (wrapped inp) ps)
      else Inl DisconnectedPath)"
  using path_loop_spec [of "[wrapped inp]" 0 ps] by simp

lemma Route_new_empty: "Route_new [] inp outp = Inl EmptyRoute"
  by (simp add: Route_new_def)

lemma Route_new_chain:
  assumes "ps \<noteq> []" and "\<not> (\<forall>p\<in>set ps. Pair_chainId p = Pair_chainId (hd ps))"
  shows "Route_new ps inp outp = Inl ChainIdMismatch"
proof -
  have first: "hd ps = ps ! 0" using assms(1) by (rule hd_conv_nth)
  from assms(2) have "\<not> list_all (\<lambda>pair. Pair_chainId pair = Pair_chainId (ps ! 0)) ps"
    unfolding list_all_iff first .
  with assms(1) show ?thesis by (simp add: Route_new_def Let_def)
qed

lemma chain_list_all:
  assumes "ps \<noteq> []" and "\<forall>p\<in>set ps. Pair_chainId p = Pair_chainId (hd ps)"
  shows "list_all (\<lambda>pair. Pair_chainId pair = Pair_chainId (ps ! 0)) ps"
proof -
  have first: "hd ps = ps ! 0" using assms(1) by (rule hd_conv_nth)
  from assms(2) show ?thesis unfolding list_all_iff first .
qed

lemma Route_new_input:
  assumes "ps \<noteq> []" and "\<forall>p\<in>set ps. Pair_chainId p = Pair_chainId (hd ps)"
    and "\<not> involvesToken (hd ps) (wrapped inp)"
  shows "Route_new ps inp outp = Inl InputNotInRoute"
  using assms(1,3) chain_list_all [OF assms(1,2)]
  by (simp add: Route_new_def Let_def hd_conv_nth)

lemma Route_new_output:
  assumes "ps \<noteq> []" and "\<forall>p\<in>set ps. Pair_chainId p = Pair_chainId (hd ps)"
    and "involvesToken (hd ps) (wrapped inp)"
    and "outp = Some out" and "\<not> involvesToken (last ps) (wrapped out)"
  shows "Route_new ps inp outp = Inl OutputNotInRoute"
  using assms(1,3,4,5) chain_list_all [OF assms(1,2)]
  by (simp add: Route_new_def Let_def hd_conv_nth last_conv_nth)

lemma Route_new_after_output:
  assumes "ps \<noteq> []" and "\<forall>p\<in>set ps. Pair_chainId p = Pair_chainId (hd ps)"
    and "involvesToken (hd ps) (wrapped inp)"
    and "\<forall>out. outp = Some out \<longrightarrow> involvesToken (last ps) (wrapped out)"
  shows "Route_new ps inp outp =
           (if spec_connected (wrapped inp) ps
            then Inr \<lparr>pairs = ps, path = spec_path (wrapped inp) ps, input = inp,
                      output = outp, midPrice_memo = None\<rparr>
            else Inl DisconnectedPath)"
proof (cases outp)
  case None
  with assms(1,3) chain_list_all [OF assms(1,2)] show ?thesis
    by (simp add: Route_new_def Let_def hd_conv_nth path_loop_start)
next
  case (Some out)
  with assms(1,3,4) chain_list_all [OF assms(1,2)] show ?thesis
    by (simp add: Route_new_def Let_def hd_conv_nth last_conv_nth path_loop_start)
qed

lemma Route_new_Inr:
  assumes "Route_new ps inp outp = Inr r"
  shows "ps \<noteq> [] \<and> (\<forall>p\<in>set ps. Pair_chainId p = Pair_chainId (hd ps))
       \<and> involvesToken (hd ps) (wrapped inp)
       \<and> (\<forall>out. outp = Some out \<longrightarrow> involvesToken (last ps) (wrapped out))
       \<and> spec_connected (wrapped inp) ps
       \<and> r = \<lparr>pairs = ps, path = spec_path (wrapped inp) ps, input = inp,
                output = outp, midPrice_memo = None\<rparr>"
proof -
  have ne: "ps \<noteq> []"
    using assms Route_new_empty [of inp outp] by auto
  have chain: "\<forall>p\<in>set ps. Pair_chainId p = Pair_chainId (hd ps)"
  proof (rule ccontr)
    assume "\<not> ?thesis"
    from Route_new_chain [OF ne this, of inp outp] assms show False by simp
  qed
  have inp: "involvesToken (hd ps) (wrapped inp)"
  proof (rule ccontr)
    assume "\<not> ?thesis"
    from Route_new_input [OF ne chain this, of outp] assms show False by simp
  qed
  have out: "\<forall>out. outp = Some out \<longrightarrow> involvesToken (last ps) (wrapped out)"
  proof (intro allI impI, rule ccontr)
    fix out assume "outp = Some out" and "\<not> involvesToken (last ps) (wrapped out)"
    from Route_new_output [OF ne chain inp this] assms show False by simp
  qed
  have eq: "Route_new ps inp outp =
           (if spec_connected (wrapped inp) ps
            then Inr \<lparr>pairs = ps, path = spec_path (wrapped inp) ps, input = inp,
                      output = outp, midPrice_memo = None\<rparr>
            else Inl DisconnectedPath)"
    by (rule Route_new_after_output [OF ne chain inp out])
  have conn: "spec_connected (wrapped inp) ps"
  proof (rule ccontr)
    assume "\<not> spec_connected (wrapped inp) ps"
    with eq have "Route_new ps inp outp = Inl DisconnectedPath" by (simp only: if_False)
    with assms show False by simp
  qed
  from eq conn have "Route_new ps inp outp =
      Inr \<lparr>pairs = ps, path = spec_path (wrapped inp) ps, input = inp,
                      output = outp, midPrice_memo = None\<rparr>"
    by (simp only: if_True)
  with assms have r: "r = \<lparr>pairs = ps, path = spec_path (wrapped inp) ps, input = inp,
                      output = outp, midPrice_memo = None\<rparr>"
    by simp
  from ne chain inp out conn r show ?thesis by (intro conjI)
qed

lemma length_spec_path: "length (spec_path t ps) = Suc (length ps)"
  by (induction ps arbitrary: t) simp_all

lemma spec_path_0: "spec_path t ps ! 0 = t"
  by (cases ps) simp_all

lemma spec_path_hop:
  assumes "spec_connected t ps" and "i < length ps"
  shows "(Token_equals (spec_path t ps ! i) (token0 (ps ! i))
            \<and> spec_path t ps ! (i + 1) = token1 (ps ! i))
       \<or> (Token_equals (spec_path t ps ! i) (token1 (ps ! i))
            \<and> spec_path t ps ! (i + 1) = token0 (ps ! i))"
  using assms
proof (induction ps arbitrary: t i)
  case Nil
  then show ?case by simp
next
  case (Cons pair rest)
  show ?case
  proof (cases i)
    case 0
    with Cons.prems show ?thesis
      by (auto simp: involvesToken_def spec_resolved_output_def spec_path_0)
  next
    case (Suc j)
    with Cons.prems Cons.IH [of "spec_resolved_output t pair" j] show ?thesis
      by simp
  qed
qed

lemma last_spec_path:
  assumes "ps \<noteq> []"
  shows "last (spec_path t ps) = token0 (last ps) \<or> last (spec_path t ps) = token1 (last ps)"
  using assms
proof (induction ps arbitrary: t)
  case Nil
  then show ?case by simp
next
  case (Cons pair rest)
  show ?case
  proof (cases "rest = []")
    case True
    then show ?thesis by (simp add: spec_resolved_output_def)
  next
    case False
    have "spec_path (spec_resolved_output t pair) rest \<noteq> []"
      by (cases rest) simp_all
    with False Cons.IH [OF False, of "spec_resolved_output t pair"] show ?thesis
      by simp
  qed
qed

text \<open>
  C5. The constructor validates, in this order: the list of pairs is not empty; all
  pairs have the chain id of the first; the wrapped input token is a token of the first
  pair; the wrapped output token, when an output is given, is a token of the last pair;
  every pair holds the token resolved by its predecessor. The first violation decides the
  error (\<open>EmptyRoute\<close>, \<open>ChainIdMismatch\<close>, \<open>InputNotInRoute\<close>, \<open>OutputNotInRoute\<close>,
  \<open>DisconnectedPath\<close>); a route is returned only when every validation passes, and no
  other error is raised.
\<close>

theorem Route_new_validation:
  "(ps = [] \<longrightarrow> Route_new ps inp outp = Inl EmptyRoute)
 \<and> (ps \<noteq> [] \<and> \<not> (\<forall>p\<in>set ps. Pair_chainId p = Pair_chainId (hd ps))
      \<longrightarrow> Route_new ps inp outp = Inl ChainIdMismatch)
 \<and> (ps \<noteq> [] \<and> (\<forall>p\<in>set ps. Pair_chainId p = Pair_chainId (hd ps))
      \<and> \<not> involvesToken (hd ps) (wrapped inp)
      \<longrightarrow> Route_new ps inp outp = Inl InputNotInRoute)
 \<and> (ps \<noteq> [] \<and> (\<forall>p\<in>set ps. Pair_chainId p = Pair_chainId (hd ps))
      \<and> involvesToken (hd ps) (wrapped inp)
      \<and> (\<exists>out. outp = Some out \<and> \<not> involvesToken (last ps) (wrapped out))
      \<longrightarrow> Route_new ps inp outp = Inl OutputNotInRoute)
 \<and> (ps \<noteq> [] \<and> (\<forall>p\<in>set ps. Pair_chainId p = Pair_chainId (hd ps))
      \<and> involvesToken (hd ps) (wrapped inp)
      \<and> (\<forall>out. outp = Some out \<longrightarrow> involvesToken (last ps) (wrapped out))
      \<and> \<not> spec_connected (wrapped inp) ps
      \<longrightarrow> Route_new ps inp outp = Inl DisconnectedPath)
 \<and> (\<forall>r. Route_new ps inp outp = Inr r
      \<longrightarrow> ps \<noteq> [] \<and> (\<forall>p\<in>set ps. Pair_chainId p = Pair_chainId (hd ps))
        \<and> involvesToken (hd ps) (wrapped inp)
        \<and> (\<forall>out. outp = Some out \<longrightarrow> involvesToken (last ps) (wrapped out))
        \<and> spec_connected (wrapped inp) ps)
 \<and> (\<forall>e. Route_new ps inp outp = Inl e
      \<longrightarrow> e = EmptyRoute \<or> e = ChainIdMismatch \<or> e = InputNotInRoute
        \<or> e = OutputNotInRoute \<or> e = DisconnectedPath)"
proof (intro conjI impI allI)
  show "Route_new ps inp outp = Inl EmptyRoute" if "ps = []"
    using that by (simp only: Route_new_empty)
next
  show "Route_new ps inp outp = Inl ChainIdMismatch"
    if "ps \<noteq> [] \<and> \<not> (\<forall>p\<in>set ps. Pair_chainId p = Pair_chainId (hd ps))"
    using that by (blast intro: Route_new_chain)
next
  show "Route_new ps inp outp = Inl InputNotInRoute"
    if "ps \<noteq> [] \<and> (\<forall>p\<in>set ps. Pair_chainId p = Pair_chainId (hd ps))
        \<and> \<not> involvesToken (hd ps) (wrapped inp)"
    using that by (blast intro: Route_new_input)
next
  show "Route_new ps inp outp = Inl OutputNotInRoute"
    if "ps \<noteq> [] \<and> (\<forall>p\<in>set ps. Pair_chainId p = Pair_chainId (hd ps))
        \<and> involvesToken (hd ps) (wrapped inp)
        \<and> (\<exists>out. outp = Some out \<and> \<not> involvesToken (last ps) (wrapped out))"
    using that by (blast intro: Route_new_output)
next
  assume a: "ps \<noteq> [] \<and> (\<forall>p\<in>set ps. Pair_chainId p = Pair_chainId (hd ps))
        \<and> involvesToken (hd ps) (wrapped inp)
        \<and> (\<forall>out. outp = Some out \<longrightarrow> involvesToken (last ps) (wrapped out))
        \<and> \<not> spec_connected (wrapped inp) ps"
  then have "Route_new ps inp outp =
           (if spec_connected (wrapped inp) ps
            then Inr \<lparr>pairs = ps, path = spec_path (wrapped inp) ps, input = inp,
                      output = outp, midPrice_memo = None\<rparr>
            else Inl DisconnectedPath)"
    by (blast intro: Route_new_after_output)
  with a show "Route_new ps inp outp = Inl DisconnectedPath"
    by (simp only: if_False)
next
  fix r assume "Route_new ps inp outp = Inr r"
  from Route_new_Inr [OF this]
  show "ps \<noteq> []" and "\<forall>p\<in>set ps. Pair_chainId p = Pair_chainId (hd ps)"
    and "involvesToken (hd ps) (wrapped inp)"
    and "\<And>out. outp = Some out \<Longrightarrow> involvesToken (last ps) (wrapped out)"
    and "spec_connected (wrapped inp) ps"
    by blast+
next
  fix e assume e: "Route_new ps inp outp = Inl e"
  let ?chain = "\<forall>p\<in>set ps. Pair_chainId p = Pair_chainId (hd ps)"
  let ?out = "\<forall>out. outp = Some out \<longrightarrow> involvesToken (last ps) (wrapped out)"
  consider (empty) "ps = []"
    | (chain) "ps \<noteq> []" "\<not> ?chain"
    | (inp) "ps \<noteq> []" "?chain" "\<not> involvesToken (hd ps) (wrapped inp)"
    | (out) "ps \<noteq> []" "?chain" "involvesToken (hd ps) (wrapped inp)" "\<not> ?out"
    | (rest) "ps \<noteq> []" "?chain" "involvesToken (hd ps) (wrapped inp)" "?out"
    by blast
  then show "e = EmptyRoute \<or> e = ChainIdMismatch \<or> e = InputNotInRoute
        \<or> e = OutputNotInRoute \<or> e = DisconnectedPath"
  proof cases
    case empty
    with e Route_new_empty [of inp outp] show ?thesis by simp
  next
    case chain
    from e Route_new_chain [OF chain, of inp outp] show ?thesis by simp
  next
    case inp
    from e Route_new_input [OF inp, of outp] show ?thesis by simp
  next
    case out
    then obtain out' where "outp = Some out'" "\<not> involvesToken (last ps) (wrapped out')"
      by blast
    from e Route_new_output [OF out(1,2,3) this] show ?thesis by simp
  next
    case rest
    from e Route_new_after_output [OF rest] show ?thesis
      by (simp split: if_splits)
  qed
qed

theorem Route_new_validation_witness:
  "Route_new [] (IsToken ex_WAVAX) (Some (IsToken ex_WAVAX)) = Inl EmptyRoute
 \<and> Route_new [ex_pair1, ex_pair_mainnet] (IsToken ex_WAVAX) (Some (IsToken ex_USDC))
      = Inl ChainIdMismatch
 \<and> Route_new [ex_pair1, ex_pair3] (IsToken ex_WAVAX) (Some (IsToken ex_USDT))
      = Inl InputNotInRoute
 \<and> Route_new [ex_pair1, ex_pair3] (IsToken ex_USDC) (Some (IsToken ex_USDT))
      = Inl OutputNotInRoute
 \<and> Route_new [ex_pair1, ex_pair3] (IsToken ex_USDC) (Some ex_AVAX)
      = Inl DisconnectedPath"
proof -
  have "Route_new [] (IsToken ex_WAVAX) (Some (IsToken ex_WAVAX)) = Inl EmptyRoute"
    using Route_new_validation [of "[]" "IsToken ex_WAVAX" "Some (IsToken ex_WAVAX)"]
    by simp
  moreover
  have "Route_new [ex_pair1, ex_pair_mainnet] (IsToken ex_WAVAX) (Some (IsToken ex_USDC))
      = Inl ChainIdMismatch"
    using Route_new_validation [of "[ex_pair1, ex_pair_mainnet]" "IsToken ex_WAVAX"
            "Some (IsToken ex_USDC)"]
    by simp
  moreover
  have "Route_new [ex_pair1, ex_pair3] (IsToken ex_WAVAX) (Some (IsToken ex_USDT))
      = Inl InputNotInRoute"
    using Route_new_validation [of "[ex_pair1, ex_pair3]" "IsToken ex_WAVAX"
            "Some (IsToken ex_USDT)"]
    by (simp add: involvesToken_def)
  moreover
  have "Route_new [ex_pair1, ex_pair3] (IsToken ex_USDC) (Some (IsToken ex_USDT))
      = Inl OutputNotInRoute"
    using Route_new_validation [of "[ex_pair1, ex_pair3]" "IsToken ex_USDC"
            "Some (IsToken ex_USDT)"]
    by (simp add: involvesToken_def)
  moreover
  have "Route_new [ex_pair1, ex_pair3] (IsToken ex_USDC) (Some ex_AVAX)
      = Inl DisconnectedPath"
    using Route_new_validation [of "[ex_pair1, ex_pair3]" "IsToken ex_USDC" "Some ex_AVAX"]
    by (simp add: involvesToken_def spec_resolved_output_def)
  ultimately show ?thesis by (intro conjI)
qed

text \<open>
  C6, as stated, fails in its last part: the path need not end at the output token. For
  the single pool USDC/USDT with USDC as input and as output the constructor returns a
  route whose path is USDC, USDT: it ends at USDT, which is not the output.
\<close>

theorem Route_new_path_counterexample:
  "Route_new [ex_pair1] (IsToken ex_USDC) (Some (IsToken ex_USDC)) =
     Inr \<lparr>pairs = [ex_pair1], path = [ex_USDC, ex_USDT], input = IsToken ex_USDC,
          output = Some (IsToken ex_USDC), midPrice_memo = None\<rparr>
   \<and> last [ex_USDC, ex_USDT] = ex_USDT
   \<and> \<not> Token_equals ex_USDT (wrapped (IsToken ex_USDC))"
  by (simp add: Route_new_def Let_def involvesToken_def)

lemma spec_path_ends_at_output:
  assumes "ps \<noteq> []" and "spec_connected t ps" and "involvesToken (last ps) w"
    and "\<not> Token_equals w (spec_path t ps ! (length ps - 1))"
  shows "Token_equals (last (spec_path t ps)) w"
proof -
  let ?i = "length ps - 1"
  have i: "?i < length ps" using assms(1) by simp
  have pair: "ps ! ?i = last ps" using assms(1) by (simp add: last_conv_nth)
  have "spec_path t ps \<noteq> []" by (cases ps) simp_all
  then have "last (spec_path t ps) = spec_path t ps ! (length (spec_path t ps) - 1)"
    by (rule last_conv_nth)
  then have final: "spec_path t ps ! (?i + 1) = last (spec_path t ps)"
    using i assms(1) by (simp add: length_spec_path)
  from spec_path_hop [OF assms(2) i]
  have "(Token_equals (spec_path t ps ! ?i) (token0 (last ps))
            \<and> last (spec_path t ps) = token1 (last ps))
       \<or> (Token_equals (spec_path t ps ! ?i) (token1 (last ps))
            \<and> last (spec_path t ps) = token0 (last ps))"
    unfolding pair final .
  with assms(3,4) show ?thesis
    by (auto simp: involvesToken_def Token_equals_def)
qed

text \<open>
  C6, amended: for every route the constructor returns, the path has one token more than
  there are pairs, begins with the wrapped input token, and at every hop \<open>i\<close> the token
  \<open>path[i]\<close> equals one of the two tokens of pair \<open>i\<close> and \<open>path[i+1]\<close> is the other
  token of that pair; so the path is a connected chain from the wrapped input token to a
  token of the last pair, and when an output is given this chain ends at the wrapped
  output token unless the wrapped output equals the token that enters the last pair
  (the constructor checks only that the wrapped output is one of the last pair's tokens).
\<close>

theorem Route_new_path:
  assumes "Route_new ps inp outp = Inr r"
  shows "pairs r = ps
       \<and> length (path r) = length (pairs r) + 1
       \<and> path r ! 0 = wrapped inp
       \<and> (\<forall>i<length (pairs r).
             (Token_equals (path r ! i) (token0 (pairs r ! i))
                \<and> path r ! (i + 1) = token1 (pairs r ! i))
           \<or> (Token_equals (path r ! i) (token1 (pairs r ! i))
                \<and> path r ! (i + 1) = token0 (pairs r ! i)))
       \<and> (last (path r) = token0 (last (pairs r)) \<or> last (path r) = token1 (last (pairs r)))
       \<and> (\<forall>out. outp = Some out
              \<and> \<not> Token_equals (wrapped out) (path r ! (length (pairs r) - 1))
            \<longrightarrow> Token_equals (last (path r)) (wrapped out))"
proof -
  from Route_new_Inr [OF assms]
  have ne: "ps \<noteq> []" and conn: "spec_connected (wrapped inp) ps"
    and outc: "\<forall>out. outp = Some out \<longrightarrow> involvesToken (last ps) (wrapped out)"
    and r: "r = \<lparr>pairs = ps, path = spec_path (wrapped inp) ps, input = inp,
                output = outp, midPrice_memo = None\<rparr>"
    by blast+
  have p: "pairs r = ps" and q: "path r = spec_path (wrapped inp) ps"
    by (simp_all add: r)
  have shape: "length (spec_path (wrapped inp) ps) = length ps + 1
       \<and> spec_path (wrapped inp) ps ! 0 = wrapped inp
       \<and> (\<forall>i<length ps.
             (Token_equals (spec_path (wrapped inp) ps ! i) (token0 (ps ! i))
                \<and> spec_path (wrapped inp) ps ! (i + 1) = token1 (ps ! i))
           \<or> (Token_equals (spec_path (wrapped inp) ps ! i) (token1 (ps ! i))
                \<and> spec_path (wrapped inp) ps ! (i + 1) = token0 (ps ! i)))
       \<and> (last (spec_path (wrapped inp) ps) = token0 (last ps)
            \<or> last (spec_path (wrapped inp) ps) = token1 (last ps))"
    using spec_path_hop [OF conn] last_spec_path [OF ne, of "wrapped inp"]
    by (simp add: length_spec_path spec_path_0)
  have ending: "\<forall>out. outp = Some out
              \<and> \<not> Token_equals (wrapped out) (spec_path (wrapped inp) ps ! (length ps - 1))
            \<longrightarrow> Token_equals (last (spec_path (wrapped inp) ps)) (wrapped out)"
  proof (intro allI impI)
    fix out
    assume a: "outp = Some out
              \<and> \<not> Token_equals (wrapped out) (spec_path (wrapped inp) ps ! (length ps - 1))"
    with outc have "involvesToken (last ps) (wrapped out)" by blast
    from spec_path_ends_at_output [OF ne conn this] a
    show "Token_equals (last (spec_path (wrapped inp) ps)) (wrapped out)" by blast
  qed
  from shape ending show ?thesis
    unfolding p q by (intro conjI refl) (elim conjE, assumption)+
qed

theorem Route_new_path_witness:
  "Route_new [ex_pair1, ex_pair2] (IsToken ex_USDC) (Some ex_AVAX) = Inr ex_route_USDC_AVAX
   \<and> path ex_route_USDC_AVAX = [ex_USDC, ex_USDT, ex_WAVAX]
   \<and> length (path ex_route_USDC_AVAX) = length (pairs ex_route_USDC_AVAX) + 1
   \<and> \<not> Token_equals (wrapped ex_AVAX)
          (path ex_route_USDC_AVAX ! (length (pairs ex_route_USDC_AVAX) - 1))
   \<and> Token_equals (last (path ex_route_USDC_AVAX)) (wrapped ex_AVAX)"
proof -
  note run = ex_route_USDC_AVAX_constructed
  have pth: "path ex_route_USDC_AVAX = [ex_USDC, ex_USDT, ex_WAVAX]"
    by (simp add: ex_route_USDC_AVAX_def)
  have entering: "\<not> Token_equals (wrapped ex_AVAX)
          (path ex_route_USDC_AVAX ! (length (pairs ex_route_USDC_AVAX) - 1))"
    by (simp add: ex_route_USDC_AVAX_def)
  from Route_new_path [OF run]
  have len: "length (path ex_route_USDC_AVAX) = length (pairs ex_route_USDC_AVAX) + 1"
    and ending: "\<forall>out. Some ex_AVAX = Some out
              \<and> \<not> Token_equals (wrapped out)
                    (path ex_route_USDC_AVAX ! (length (pairs ex_route_USDC_AVAX) - 1))
            \<longrightarrow> Token_equals (last (path ex_route_USDC_AVAX)) (wrapped out)"
    by blast+
  from ending entering
  have ends: "Token_equals (last (path ex_route_USDC_AVAX)) (wrapped ex_AVAX)" by blast
  from run pth len entering ends show ?thesis by (intro conjI)
qed

text \<open>
  C9. With an undefined output the containment check of the output is skipped: the
  constructor never fails with \<open>OutputNotInRoute\<close>, and for every list of pairs and
  input that pass the other validations it returns a route whose output is undefined.
\<close>

theorem Route_new_undefined_output:
  "Route_new ps inp None \<noteq> Inl OutputNotInRoute
 \<and> (ps \<noteq> [] \<and> (\<forall>p\<in>set ps. Pair_chainId p = Pair_chainId (hd ps))
      \<and> involvesToken (hd ps) (wrapped inp) \<and> spec_connected (wrapped inp) ps
    \<longrightarrow> Route_new ps inp None =
          Inr \<lparr>pairs = ps, path = spec_path (wrapped inp) ps, input = inp,
               output = None, midPrice_memo = None\<rparr>)"
proof (intro conjI impI)
  let ?chain = "\<forall>p\<in>set ps. Pair_chainId p = Pair_chainId (hd ps)"
  consider (empty) "ps = []"
    | (chain) "ps \<noteq> []" "\<not> ?chain"
    | (inp) "ps \<noteq> []" "?chain" "\<not> involvesToken (hd ps) (wrapped inp)"
    | (rest) "ps \<noteq> []" "?chain" "involvesToken (hd ps) (wrapped inp)"
    by blast
  then show "Route_new ps inp None \<noteq> Inl OutputNotInRoute"
  proof cases
    case empty
    then show ?thesis by (simp add: Route_new_empty)
  next
    case chain
    from Route_new_chain [OF chain, of inp None] show ?thesis by simp
  next
    case inp
    from Route_new_input [OF inp, of None] show ?thesis by simp
  next
    case rest
    have "\<forall>out. (None :: Currency option) = Some out \<longrightarrow> involvesToken (last ps) (wrapped out)"
      by simp
    from Route_new_after_output [OF rest this] show ?thesis by simp
  qed
next
  assume a: "ps \<noteq> [] \<and> (\<forall>p\<in>set ps. Pair_chainId p = Pair_chainId (hd ps))
      \<and> involvesToken (hd ps) (wrapped inp) \<and> spec_connected (wrapped inp) ps"
  have "\<forall>out. (None :: Currency option) = Some out \<longrightarrow> involvesToken (last ps) (wrapped out)"
    by simp
  with a have "Route_new ps inp None =
           (if spec_connected (wrapped inp) ps
            then Inr \<lparr>pairs = ps, path = spec_path (wrapped inp) ps, input = inp,
                      output = None, midPrice_memo = None\<rparr>
            else Inl DisconnectedPath)"
    by (blast intro: Route_new_after_output)
  with a show "Route_new ps inp None =
          Inr \<lparr>pairs = ps, path = spec_path (wrapped inp) ps, input = inp,
               output = None, midPrice_memo = None\<rparr>"
    by (simp only: if_True)
qed

theorem Route_new_undefined_output_witness:
  "Route_new [ex_pair1] (IsToken ex_USDC) None =
     Inr \<lparr>pairs = [ex_pair1], path = [ex_USDC, ex_USDT], input = IsToken ex_USDC,
          output = None, midPrice_memo = None\<rparr>
   \<and> Route_new [ex_pair1] (IsToken ex_USDC) (Some (IsToken ex_WAVAX)) = Inl OutputNotInRoute"
proof -
  have "Route_new [ex_pair1] (IsToken ex_USDC) None =
     Inr \<lparr>pairs = [ex_pair1], path = [ex_USDC, ex_USDT], input = IsToken ex_USDC,
          output = None, midPrice_memo = None\<rparr>"
    using Route_new_undefined_output [of "[ex_pair1]" "IsToken ex_USDC"]
    by (simp add: involvesToken_def spec_resolved_output_def)
  moreover
  have "Route_new [ex_pair1] (IsToken ex_USDC) (Some (IsToken ex_WAVAX)) = Inl OutputNotInRoute"
    by (simp add: Route_new_def Let_def involvesToken_def)
  ultimately show ?thesis by (intro conjI)
qed

section \<open>Properties of the route price\<close>

lemma Token_equals_sym: "Token_equals a b \<longleftrightarrow> Token_equals b a"
  by (auto simp: Token_equals_def)

lemma getPrice_None:
  assumes "curveId pair \<noteq> 0" and "curveId pair \<noteq> 1"
  shows "getPrice t pair = None"
  using assms by (simp add: getPrice_def)

lemma getPrice_Some:
  assumes "curveId pair = 0 \<or> curveId pair = 1" and "involvesToken pair t"
  shows "\<exists>c. getPrice t pair = Some c
           \<and> Currency_equals (baseCurrency c) (IsToken t)
           \<and> Currency_equals (IsToken t) (baseCurrency c)
           \<and> quoteCurrency c = IsToken (spec_resolved_output t pair)"
proof (cases "Token_equals t (token0 pair)")
  case True
  with assms(1) show ?thesis
    by (auto simp: getPrice_def Price_new_def token0Price_def token0_def token1_def
          spec_resolved_output_def Token_equals_sym)
next
  case False
  with assms(2) have "Token_equals t (token1 pair)" by (simp add: involvesToken_def)
  with False assms(1) show ?thesis
    by (auto simp: getPrice_def Price_new_def token1Price_def token0_def token1_def
          spec_resolved_output_def Token_equals_sym)
qed

text \<open>The prices the getter collects are the hop prices along the path.\<close>

lemma hop_prices_spec:
  "map (\<lambda>(i, pair). getPrice (spec_path t ps ! i) pair) (enumerate 0 ps) = spec_hop_prices t ps"
proof (induction ps arbitrary: t)
  case Nil
  show ?case by simp
next
  case (Cons pair rest)
  have "map (\<lambda>(i, p). getPrice (spec_path t (pair # rest) ! i) p) (enumerate (Suc 0) rest) =
        map (\<lambda>(i, p). getPrice (spec_path (spec_resolved_output t pair) rest ! i) p)
          (enumerate 0 rest)"
    by (simp add: enumerate_Suc_eq case_prod_beta)
  with Cons.IH [of "spec_resolved_output t pair"] show ?case by simp
qed

lemma reduce_multiply_None:
  "reduce_multiply None xs = (if xs = [] then Inr None else Inl TypeError)"
  by (cases xs) simp_all

text \<open>
  Along a connected chain of pairs the reduction never fails with the invariant of
  \<open>Price.multiply\<close>: it returns the product of the hop prices when every curve id is 0
  or 1, and is a \<open>TypeError\<close> otherwise.
\<close>

lemma reduce_multiply_hops:
  assumes "spec_connected t ps" and "quoteCurrency a = IsToken t"
  shows "reduce_multiply (Some a) (spec_hop_prices t ps) =
           (if \<forall>p\<in>set ps. curveId p = 0 \<or> curveId p = 1
            then Inr (Some (Price_new (baseCurrency a) (IsToken (last (spec_path t ps)))
                   (denominator a * prod_list (map (denominator \<circ> the) (spec_hop_prices t ps)))
                   (numerator a * prod_list (map (numerator \<circ> the) (spec_hop_prices t ps)))))
            else Inl TypeError)"
  using assms
proof (induction ps arbitrary: t a)
  case Nil
  then show ?case by (simp add: Price_new_def)
next
  case (Cons pair rest)
  let ?t' = "spec_resolved_output t pair"
  from Cons.prems(1) have inv: "involvesToken pair t" and conn: "spec_connected ?t' rest"
    by simp_all
  show ?case
  proof (cases "curveId pair = 0 \<or> curveId pair = 1")
    case False
    then have "getPrice t pair = None" by (simp add: getPrice_None)
    with False show ?thesis by simp
  next
    case True
    from getPrice_Some [OF True inv] obtain c where
      c: "getPrice t pair = Some c" and base: "Currency_equals (IsToken t) (baseCurrency c)"
      and quote: "quoteCurrency c = IsToken ?t'"
      by blast
    let ?a' = "Price_new (baseCurrency a) (quoteCurrency c)
                 (denominator a * denominator c) (numerator a * numerator c)"
    have mult: "Price_multiply a c = Inr ?a'"
      using base Cons.prems(2) by (simp add: Price_multiply_def)
    have q': "quoteCurrency ?a' = IsToken ?t'"
      using quote by (simp add: Price_new_def)
    have ne: "spec_path ?t' rest \<noteq> []" by (cases rest) simp_all
    have step: "reduce_multiply (Some a) (spec_hop_prices t (pair # rest)) =
                reduce_multiply (Some ?a') (spec_hop_prices ?t' rest)"
      using c mult by simp
    show ?thesis
      unfolding step Cons.IH [OF conn q']
      using True c ne by (simp add: Price_new_def mult.assoc comp_def)
  qed
qed

text \<open>
  The mid price of a route the constructor returned: the product of the hop prices from
  the input to the output when every curve id is 0 or 1 and the output is defined, and a
  \<open>TypeError\<close> otherwise.
\<close>

lemma midPrice_constructed:
  assumes "Route_new ps inp outp = Inr r"
  shows "hop_prices r = spec_hop_prices (wrapped inp) ps
       \<and> midPrice r =
           (if (\<forall>p\<in>set ps. curveId p = 0 \<or> curveId p = 1) \<and> outp \<noteq> None
            then Inr (Price_new inp (the outp)
                        (prod_list (map (denominator \<circ> the) (hop_prices r)))
                        (prod_list (map (numerator \<circ> the) (hop_prices r))),
                      r\<lparr>midPrice_memo := Some (Price_new inp (the outp)
                        (prod_list (map (denominator \<circ> the) (hop_prices r)))
                        (prod_list (map (numerator \<circ> the) (hop_prices r))))\<rparr>)
            else Inl TypeError)"
proof -
  let ?t = "wrapped inp"
  from Route_new_Inr [OF assms]
  have ne: "ps \<noteq> []" and conn: "spec_connected ?t ps"
    and r: "r = \<lparr>pairs = ps, path = spec_path ?t ps, input = inp,
                output = outp, midPrice_memo = None\<rparr>"
    by blast+
  have hops: "hop_prices r = spec_hop_prices ?t ps"
    by (simp add: hop_prices_def r hop_prices_spec)
  from ne obtain pair rest where ps: "ps = pair # rest" by (cases ps) auto
  let ?t' = "spec_resolved_output ?t pair"
  from conn ps have inv: "involvesToken pair ?t" and conn': "spec_connected ?t' rest"
    by simp_all
  have memo: "midPrice_memo r = None" and outr: "output r = outp" and inr: "input r = inp"
    by (simp_all add: r)
  have unfold: "midPrice r =
     (case reduce_multiply (getPrice ?t pair) (spec_hop_prices ?t' rest) of
        Inl e \<Rightarrow> Inl e
      | Inr None \<Rightarrow> Inl TypeError
      | Inr (Some reduced) \<Rightarrow>
          (case outp of
             None \<Rightarrow> Inl TypeError
           | Some out \<Rightarrow>
               Inr (Price_new inp out (denominator reduced) (numerator reduced),
                    r\<lparr>midPrice_memo :=
                        Some (Price_new inp out (denominator reduced) (numerator reduced))\<rparr>)))"
    by (simp add: midPrice_def memo outr inr hops ps Let_def
          cong: sum.case_cong option.case_cong)
  show ?thesis
  proof (cases "curveId pair = 0 \<or> curveId pair = 1")
    case False
    then have "getPrice ?t pair = None" by (simp add: getPrice_None)
    with False hops show ?thesis
      unfolding unfold by (simp add: reduce_multiply_None ps)
  next
    case True
    from getPrice_Some [OF True inv] obtain c where
      c: "getPrice ?t pair = Some c" and quote: "quoteCurrency c = IsToken ?t'"
      by blast
    show ?thesis
      unfolding unfold c reduce_multiply_hops [OF conn' quote]
      using True hops c
      by (cases outp) (simp_all add: ps Price_new_def)
  qed
qed

lemma length_spec_hop_prices: "length (spec_hop_prices t ps) = length ps"
  by (induction ps arbitrary: t) simp_all

lemma spec_hop_prices_nth:
  assumes "spec_connected t ps" and "\<forall>p\<in>set ps. curveId p = 0 \<or> curveId p = 1"
    and "i < length ps"
  shows "\<exists>c. spec_hop_prices t ps ! i = Some c
           \<and> getPrice (spec_path t ps ! i) (ps ! i) = Some c
           \<and> Currency_equals (baseCurrency c) (IsToken (spec_path t ps ! i))
           \<and> Currency_equals (IsToken (spec_path t ps ! i)) (baseCurrency c)
           \<and> quoteCurrency c = IsToken (spec_path t ps ! (i + 1))"
  using assms
proof (induction ps arbitrary: t i)
  case Nil
  then show ?case by simp
next
  case (Cons pair rest)
  show ?case
  proof (cases i)
    case 0
    from Cons.prems have "curveId pair = 0 \<or> curveId pair = 1" and "involvesToken pair t"
      by simp_all
    from getPrice_Some [OF this] 0 show ?thesis
      by (auto simp: spec_path_0)
  next
    case (Suc j)
    with Cons.prems Cons.IH [of "spec_resolved_output t pair" j] show ?thesis
      by simp
  qed
qed

lemma getPrice_constant_product:
  assumes "getPrice t pair = Some c" and "curveId pair = 0"
  shows "c = (if Token_equals t (token0 pair)
              then Price_new (IsToken (token0 pair)) (IsToken (token1 pair))
                     (quotient (reserve0 pair)) (quotient (reserve1 pair))
              else Price_new (IsToken (token1 pair)) (IsToken (token0 pair))
                     (quotient (reserve1 pair)) (quotient (reserve0 pair)))"
  using assms by (auto simp: getPrice_def token0_def token1_def split: if_splits)

lemma getPrice_stable:
  assumes "getPrice t pair = Some c" and "curveId pair = 1"
  shows "c = (if Token_equals t (token0 pair) then token0Price pair else token1Price pair)"
  using assms by (auto simp: getPrice_def split: if_splits)

lemma midPrice_memoized:
  assumes "midPrice_memo this = Some p"
  shows "midPrice this = Inr (p, this)"
  using assms by (simp add: midPrice_def)

text \<open>
  C7, as stated, fails: not every route has a mid price. The route over the single pool
  of curve id 2, and the route from USDC over the USDC/USDT pool with an undefined
  output, are both returned by the constructor, and \<open>midPrice\<close> fails on both with a
  \<open>TypeError\<close>.
\<close>

theorem midPrice_product_counterexample:
  "Route_new [ex_pair_curve2] ex_AVAX (Some (IsToken ex_USDT)) =
     Inr \<lparr>pairs = [ex_pair_curve2], path = [ex_WAVAX, ex_USDT], input = ex_AVAX,
          output = Some (IsToken ex_USDT), midPrice_memo = None\<rparr>
   \<and> midPrice \<lparr>pairs = [ex_pair_curve2], path = [ex_WAVAX, ex_USDT], input = ex_AVAX,
          output = Some (IsToken ex_USDT), midPrice_memo = None\<rparr> = Inl TypeError
   \<and> Route_new [ex_pair1] (IsToken ex_USDC) None =
     Inr \<lparr>pairs = [ex_pair1], path = [ex_USDC, ex_USDT], input = IsToken ex_USDC,
          output = None, midPrice_memo = None\<rparr>
   \<and> midPrice \<lparr>pairs = [ex_pair1], path = [ex_USDC, ex_USDT], input = IsToken ex_USDC,
          output = None, midPrice_memo = None\<rparr> = Inl TypeError"
  by (simp add: Route_new_def Let_def involvesToken_def midPrice_def hop_prices_def
        getPrice_def)

text \<open>
  C7, amended: for every route the constructor returns whose pairs all have curve id 0 or
  1 and whose output is defined, every hop has a spot price, oriented from the token that
  enters the hop (\<open>path[i]\<close>) to the token that leaves it (\<open>path[i+1]\<close>): for the
  constant-product curve the reserve of the leaving token over the reserve of the entering
  token, for the stable curve the pair's \<open>token0Price\<close> or \<open>token1Price\<close>;
  \<open>midPrice\<close>, on the first read and on every read after it (the memoized ones), is the
  price from the route's input to its output whose numerator and denominator are the
  products, in path order, of the hops' numerators and denominators; and for a route of
  two hops this is \<open>priceHop1.multiply(priceHop2)\<close> re-expressed from the input to the
  output.
\<close>

theorem midPrice_product:
  assumes "Route_new ps inp (Some out) = Inr r"
    and "\<forall>p\<in>set ps. curveId p = 0 \<or> curveId p = 1"
  shows "\<exists>hs P.
           hop_prices r = map Some hs \<and> length hs = length ps
         \<and> (\<forall>i<length ps.
               getPrice (path r ! i) (ps ! i) = Some (hs ! i)
             \<and> Currency_equals (baseCurrency (hs ! i)) (IsToken (path r ! i))
             \<and> quoteCurrency (hs ! i) = IsToken (path r ! (i + 1))
             \<and> (curveId (ps ! i) = 0 \<longrightarrow>
                  hs ! i =
                    (if Token_equals (path r ! i) (token0 (ps ! i))
                     then Price_new (IsToken (token0 (ps ! i))) (IsToken (token1 (ps ! i)))
                            (quotient (reserve0 (ps ! i))) (quotient (reserve1 (ps ! i)))
                     else Price_new (IsToken (token1 (ps ! i))) (IsToken (token0 (ps ! i)))
                            (quotient (reserve1 (ps ! i))) (quotient (reserve0 (ps ! i)))))
             \<and> (curveId (ps ! i) = 1 \<longrightarrow>
                  hs ! i =
                    (if Token_equals (path r ! i) (token0 (ps ! i))
                     then token0Price (ps ! i) else token1Price (ps ! i))))
         \<and> P = Price_new inp out (prod_list (map denominator hs)) (prod_list (map numerator hs))
         \<and> midPrice r = Inr (P, r\<lparr>midPrice_memo := Some P\<rparr>)
         \<and> midPrice (r\<lparr>midPrice_memo := Some P\<rparr>) = Inr (P, r\<lparr>midPrice_memo := Some P\<rparr>)
         \<and> (length ps = 2 \<longrightarrow>
              (\<exists>m. Price_multiply (hs ! 0) (hs ! 1) = Inr m
                 \<and> P = Price_new inp out (denominator m) (numerator m)))"
proof -
  let ?t = "wrapped inp"
  let ?hs = "map the (spec_hop_prices ?t ps)"
  let ?P = "Price_new inp out (prod_list (map denominator ?hs)) (prod_list (map numerator ?hs))"
  from Route_new_Inr [OF assms(1)]
  have conn: "spec_connected ?t ps"
    and r: "r = \<lparr>pairs = ps, path = spec_path ?t ps, input = inp,
                output = Some out, midPrice_memo = None\<rparr>"
    by blast+
  have pth: "path r = spec_path ?t ps" by (simp add: r)
  from midPrice_constructed [OF assms(1)]
  have hops: "hop_prices r = spec_hop_prices ?t ps"
    and mid: "midPrice r =
           (if (\<forall>p\<in>set ps. curveId p = 0 \<or> curveId p = 1) \<and> Some out \<noteq> None
            then Inr (Price_new inp (the (Some out))
                        (prod_list (map (denominator \<circ> the) (hop_prices r)))
                        (prod_list (map (numerator \<circ> the) (hop_prices r))),
                      r\<lparr>midPrice_memo := Some (Price_new inp (the (Some out))
                        (prod_list (map (denominator \<circ> the) (hop_prices r)))
                        (prod_list (map (numerator \<circ> the) (hop_prices r))))\<rparr>)
            else Inl TypeError)"
    by blast+
  have nth: "\<exists>c. spec_hop_prices ?t ps ! i = Some c
           \<and> getPrice (spec_path ?t ps ! i) (ps ! i) = Some c
           \<and> Currency_equals (baseCurrency c) (IsToken (spec_path ?t ps ! i))
           \<and> Currency_equals (IsToken (spec_path ?t ps ! i)) (baseCurrency c)
           \<and> quoteCurrency c = IsToken (spec_path ?t ps ! (i + 1))" if "i < length ps" for i
    by (rule spec_hop_prices_nth [OF conn assms(2) that])
  have len: "length ?hs = length ps" by (simp add: length_spec_hop_prices)
  have some: "map Some ?hs = spec_hop_prices ?t ps"
  proof (rule nth_equalityI)
    show "length (map Some ?hs) = length (spec_hop_prices ?t ps)" by simp
  next
    fix i assume "i < length (map Some ?hs)"
    then have i: "i < length ps" by (simp add: length_spec_hop_prices)
    from nth [OF i] obtain c where "spec_hop_prices ?t ps ! i = Some c" by blast
    with i show "map Some ?hs ! i = spec_hop_prices ?t ps ! i"
      by (simp add: length_spec_hop_prices)
  qed
  have hop: "getPrice (path r ! i) (ps ! i) = Some (?hs ! i)
             \<and> Currency_equals (baseCurrency (?hs ! i)) (IsToken (path r ! i))
             \<and> Currency_equals (IsToken (path r ! i)) (baseCurrency (?hs ! i))
             \<and> quoteCurrency (?hs ! i) = IsToken (path r ! (i + 1))" if "i < length ps" for i
    using nth [OF that] that by (auto simp: pth length_spec_hop_prices)
  have cp: "curveId (ps ! i) = 0 \<longrightarrow>
                  ?hs ! i =
                    (if Token_equals (path r ! i) (token0 (ps ! i))
                     then Price_new (IsToken (token0 (ps ! i))) (IsToken (token1 (ps ! i)))
                            (quotient (reserve0 (ps ! i))) (quotient (reserve1 (ps ! i)))
                     else Price_new (IsToken (token1 (ps ! i))) (IsToken (token0 (ps ! i)))
                            (quotient (reserve1 (ps ! i))) (quotient (reserve0 (ps ! i))))"
    if "i < length ps" for i
  proof
    assume c0: "curveId (ps ! i) = 0"
    from hop [OF that] have "getPrice (path r ! i) (ps ! i) = Some (?hs ! i)" by blast
    from getPrice_constant_product [OF this c0]
    show "?hs ! i =
                    (if Token_equals (path r ! i) (token0 (ps ! i))
                     then Price_new (IsToken (token0 (ps ! i))) (IsToken (token1 (ps ! i)))
                            (quotient (reserve0 (ps ! i))) (quotient (reserve1 (ps ! i)))
                     else Price_new (IsToken (token1 (ps ! i))) (IsToken (token0 (ps ! i)))
                            (quotient (reserve1 (ps ! i))) (quotient (reserve0 (ps ! i))))" .
  qed
  have st: "curveId (ps ! i) = 1 \<longrightarrow>
                  ?hs ! i =
                    (if Token_equals (path r ! i) (token0 (ps ! i))
                     then token0Price (ps ! i) else token1Price (ps ! i))"
    if "i < length ps" for i
  proof
    assume c1: "curveId (ps ! i) = 1"
    from hop [OF that] have "getPrice (path r ! i) (ps ! i) = Some (?hs ! i)" by blast
    from getPrice_stable [OF this c1]
    show "?hs ! i =
                    (if Token_equals (path r ! i) (token0 (ps ! i))
                     then token0Price (ps ! i) else token1Price (ps ! i))" .
  qed
  have midP: "midPrice r = Inr (?P, r\<lparr>midPrice_memo := Some ?P\<rparr>)"
    using mid assms(2) by (simp add: hops comp_def)
  have again: "midPrice (r\<lparr>midPrice_memo := Some ?P\<rparr>) = Inr (?P, r\<lparr>midPrice_memo := Some ?P\<rparr>)"
    by (rule midPrice_memoized) simp
  have two: "\<exists>m. Price_multiply (?hs ! 0) (?hs ! 1) = Inr m
                 \<and> ?P = Price_new inp out (denominator m) (numerator m)" if "length ps = 2"
  proof -
    from that len obtain h0 h1 where hs: "?hs = [h0, h1]"
      by (metis (no_types, lifting) length_0_conv length_Suc_conv numeral_2_eq_2)
    from that hop [of 0] hop [of 1]
    have "Currency_equals (quoteCurrency (?hs ! 0)) (baseCurrency (?hs ! 1))"
      by simp
    then show ?thesis
      by (simp add: hs Price_multiply_def Price_new_def)
  qed
  have hopall: "\<forall>i<length ps.
               getPrice (path r ! i) (ps ! i) = Some (?hs ! i)
             \<and> Currency_equals (baseCurrency (?hs ! i)) (IsToken (path r ! i))
             \<and> quoteCurrency (?hs ! i) = IsToken (path r ! (i + 1))
             \<and> (curveId (ps ! i) = 0 \<longrightarrow>
                  ?hs ! i =
                    (if Token_equals (path r ! i) (token0 (ps ! i))
                     then Price_new (IsToken (token0 (ps ! i))) (IsToken (token1 (ps ! i)))
                            (quotient (reserve0 (ps ! i))) (quotient (reserve1 (ps ! i)))
                     else Price_new (IsToken (token1 (ps ! i))) (IsToken (token0 (ps ! i)))
                            (quotient (reserve1 (ps ! i))) (quotient (reserve0 (ps ! i)))))
             \<and> (curveId (ps ! i) = 1 \<longrightarrow>
                  ?hs ! i =
                    (if Token_equals (path r ! i) (token0 (ps ! i))
                     then token0Price (ps ! i) else token1Price (ps ! i)))"
  proof (intro allI impI)
    fix i assume i: "i < length ps"
    from hop [OF i] cp [OF i] st [OF i] show "getPrice (path r ! i) (ps ! i) = Some (?hs ! i)
             \<and> Currency_equals (baseCurrency (?hs ! i)) (IsToken (path r ! i))
             \<and> quoteCurrency (?hs ! i) = IsToken (path r ! (i + 1))
             \<and> (curveId (ps ! i) = 0 \<longrightarrow>
                  ?hs ! i =
                    (if Token_equals (path r ! i) (token0 (ps ! i))
                     then Price_new (IsToken (token0 (ps ! i))) (IsToken (token1 (ps ! i)))
                            (quotient (reserve0 (ps ! i))) (quotient (reserve1 (ps ! i)))
                     else Price_new (IsToken (token1 (ps ! i))) (IsToken (token0 (ps ! i)))
                            (quotient (reserve1 (ps ! i))) (quotient (reserve0 (ps ! i)))))
             \<and> (curveId (ps ! i) = 1 \<longrightarrow>
                  ?hs ! i =
                    (if Token_equals (path r ! i) (token0 (ps ! i))
                     then token0Price (ps ! i) else token1Price (ps ! i)))"
      by (intro conjI) (elim conjE, assumption)+
  qed
  have collected: "hop_prices r = map Some ?hs"
    using hops some by simp
  have twohop: "length ps = 2 \<longrightarrow>
              (\<exists>m. Price_multiply (?hs ! 0) (?hs ! 1) = Inr m
                 \<and> ?P = Price_new inp out (denominator m) (numerator m))"
    using two by (rule impI)
  show ?thesis
  proof (intro exI conjI)
    show "hop_prices r = map Some ?hs" by (rule collected)
    show "length ?hs = length ps" by (rule len)
    show "\<forall>i<length ps.
               getPrice (path r ! i) (ps ! i) = Some (?hs ! i)
             \<and> Currency_equals (baseCurrency (?hs ! i)) (IsToken (path r ! i))
             \<and> quoteCurrency (?hs ! i) = IsToken (path r ! (i + 1))
             \<and> (curveId (ps ! i) = 0 \<longrightarrow>
                  ?hs ! i =
                    (if Token_equals (path r ! i) (token0 (ps ! i))
                     then Price_new (IsToken (token0 (ps ! i))) (IsToken (token1 (ps ! i)))
                            (quotient (reserve0 (ps ! i))) (quotient (reserve1 (ps ! i)))
                     else Price_new (IsToken (token1 (ps ! i))) (IsToken (token0 (ps ! i)))
                            (quotient (reserve1 (ps ! i))) (quotient (reserve0 (ps ! i)))))
             \<and> (curveId (ps ! i) = 1 \<longrightarrow>
                  ?hs ! i =
                    (if Token_equals (path r ! i) (token0 (ps ! i))
                     then token0Price (ps ! i) else token1Price (ps ! i)))"
      by (rule hopall)
    show "?P = Price_new inp out (prod_list (map denominator ?hs)) (prod_list (map numerator ?hs))"
      by (rule refl)
    show "midPrice r = Inr (?P, r\<lparr>midPrice_memo := Some ?P\<rparr>)" by (rule midP)
    show "midPrice (r\<lparr>midPrice_memo := Some ?P\<rparr>) = Inr (?P, r\<lparr>midPrice_memo := Some ?P\<rparr>)"
      by (rule again)
    show "length ps = 2 \<longrightarrow>
              (\<exists>m. Price_multiply (?hs ! 0) (?hs ! 1) = Inr m
                 \<and> ?P = Price_new inp out (denominator m) (numerator m))"
      by (rule twohop)
  qed
qed

theorem midPrice_product_witness:
  "Route_new [ex_pair1, ex_pair2] (IsToken ex_USDC) (Some ex_AVAX) = Inr ex_route_USDC_AVAX
   \<and> hop_prices ex_route_USDC_AVAX =
       [Some (Price_new (IsToken ex_USDC) (IsToken ex_USDT) 1000000 950000),
        Some (Price_new (IsToken ex_USDT) (IsToken ex_WAVAX) 2100000 2000000)]
   \<and> midPrice ex_route_USDC_AVAX =
       Inr (Price_new (IsToken ex_USDC) ex_AVAX 2100000000000 1900000000000,
            ex_route_USDC_AVAX\<lparr>midPrice_memo :=
              Some (Price_new (IsToken ex_USDC) ex_AVAX 2100000000000 1900000000000)\<rparr>)
   \<and> Route_new [ex_pair_stable, ex_pair2] (IsToken ex_USDC) (Some ex_AVAX) = Inr ex_route_stable
   \<and> hop_prices ex_route_stable =
       [Some (Price_new (IsToken ex_USDC) (IsToken ex_USDT) 1000 999),
        Some (Price_new (IsToken ex_USDT) (IsToken ex_WAVAX) 2100000 2000000)]
   \<and> midPrice ex_route_stable =
       Inr (Price_new (IsToken ex_USDC) ex_AVAX 2100000000 1998000000,
            ex_route_stable\<lparr>midPrice_memo :=
              Some (Price_new (IsToken ex_USDC) ex_AVAX 2100000000 1998000000)\<rparr>)
   \<and> midPrice (ex_route_stable\<lparr>midPrice_memo :=
              Some (Price_new (IsToken ex_USDC) ex_AVAX 2100000000 1998000000)\<rparr>) =
       Inr (Price_new (IsToken ex_USDC) ex_AVAX 2100000000 1998000000,
            ex_route_stable\<lparr>midPrice_memo :=
              Some (Price_new (IsToken ex_USDC) ex_AVAX 2100000000 1998000000)\<rparr>)"
proof -
  let ?h1 = "Price_new (IsToken ex_USDC) (IsToken ex_USDT) 1000000 950000"
  let ?s1 = "Price_new (IsToken ex_USDC) (IsToken ex_USDT) 1000 999"
  let ?h2 = "Price_new (IsToken ex_USDT) (IsToken ex_WAVAX) 2100000 2000000"
  note run = ex_route_USDC_AVAX_constructed
  have curve: "\<forall>p\<in>set [ex_pair1, ex_pair2]. curveId p = 0 \<or> curveId p = 1"
    by simp
  have collected: "hop_prices ex_route_USDC_AVAX = [Some ?h1, Some ?h2]"
    by (simp add: hop_prices_def ex_route_USDC_AVAX_def getPrice_def)
  from midPrice_product [OF run curve] obtain hs P where
    hs: "hop_prices ex_route_USDC_AVAX = map Some hs"
    and P: "P = Price_new (IsToken ex_USDC) ex_AVAX
                  (prod_list (map denominator hs)) (prod_list (map numerator hs))"
    and mid: "midPrice ex_route_USDC_AVAX =
                Inr (P, ex_route_USDC_AVAX\<lparr>midPrice_memo := Some P\<rparr>)"
    by blast
  from hs collected have "hs = [?h1, ?h2]" by auto
  with P have "P = Price_new (IsToken ex_USDC) ex_AVAX 2100000000000 1900000000000"
    by (simp add: Price_new_def)
  with mid have first: "midPrice ex_route_USDC_AVAX =
       Inr (Price_new (IsToken ex_USDC) ex_AVAX 2100000000000 1900000000000,
            ex_route_USDC_AVAX\<lparr>midPrice_memo :=
              Some (Price_new (IsToken ex_USDC) ex_AVAX 2100000000000 1900000000000)\<rparr>)"
    by simp
  note run' = ex_route_stable_constructed
  have curve': "\<forall>p\<in>set [ex_pair_stable, ex_pair2]. curveId p = 0 \<or> curveId p = 1"
    by simp
  have collected': "hop_prices ex_route_stable = [Some ?s1, Some ?h2]"
    by (simp add: hop_prices_def ex_route_stable_def getPrice_def)
  from midPrice_product [OF run' curve'] obtain hs' P' where
    hs': "hop_prices ex_route_stable = map Some hs'"
    and P': "P' = Price_new (IsToken ex_USDC) ex_AVAX
                  (prod_list (map denominator hs')) (prod_list (map numerator hs'))"
    and mid': "midPrice ex_route_stable = Inr (P', ex_route_stable\<lparr>midPrice_memo := Some P'\<rparr>)"
    and again': "midPrice (ex_route_stable\<lparr>midPrice_memo := Some P'\<rparr>) =
                   Inr (P', ex_route_stable\<lparr>midPrice_memo := Some P'\<rparr>)"
    by blast
  from hs' collected' have "hs' = [?s1, ?h2]" by auto
  with P' have "P' = Price_new (IsToken ex_USDC) ex_AVAX 2100000000 1998000000"
    by (simp add: Price_new_def)
  with mid' again' have second: "midPrice ex_route_stable =
       Inr (Price_new (IsToken ex_USDC) ex_AVAX 2100000000 1998000000,
            ex_route_stable\<lparr>midPrice_memo :=
              Some (Price_new (IsToken ex_USDC) ex_AVAX 2100000000 1998000000)\<rparr>)"
    and third: "midPrice (ex_route_stable\<lparr>midPrice_memo :=
              Some (Price_new (IsToken ex_USDC) ex_AVAX 2100000000 1998000000)\<rparr>) =
       Inr (Price_new (IsToken ex_USDC) ex_AVAX 2100000000 1998000000,
            ex_route_stable\<lparr>midPrice_memo :=
              Some (Price_new (IsToken ex_USDC) ex_AVAX 2100000000 1998000000)\<rparr>)"
    by simp_all
  from run collected first run' collected' second third show ?thesis
    by (intro conjI)
qed

text \<open>
  C10. The price helper is partial over the curve id: for a pair whose curve id is
  neither 0 nor 1 it returns an undefined price, whatever the token; on a route the
  constructor returned that holds such a pair, \<open>midPrice\<close> fails with a \<open>TypeError\<close>,
  which is none of the named invariant errors; so \<open>midPrice\<close> returns a price only when
  every pair has curve id 0 or 1.
\<close>

theorem midPrice_unsupported_curve:
  assumes "Route_new ps inp outp = Inr r"
  shows "(\<forall>p\<in>set ps. curveId p \<noteq> 0 \<and> curveId p \<noteq> 1 \<longrightarrow>
            (\<forall>t. getPrice t p = None)
          \<and> midPrice r = Inl TypeError
          \<and> (\<forall>m. midPrice r \<noteq> Inl (InvariantFailed m)))
       \<and> ((\<exists>x. midPrice r = Inr x) \<longrightarrow> (\<forall>p\<in>set ps. curveId p = 0 \<or> curveId p = 1))"
proof -
  let ?ok = "(\<forall>p\<in>set ps. curveId p = 0 \<or> curveId p = 1) \<and> outp \<noteq> None"
  from midPrice_constructed [OF assms] obtain y where
    mid: "midPrice r = (if ?ok then Inr y else Inl TypeError)"
    by blast
  have bad: "midPrice r = Inl TypeError" if "p \<in> set ps" "curveId p \<noteq> 0 \<and> curveId p \<noteq> 1" for p
  proof -
    from that have "\<not> ?ok" by blast
    with mid show ?thesis by (simp only: if_False)
  qed
  have good: "\<forall>p\<in>set ps. curveId p = 0 \<or> curveId p = 1" if "\<exists>x. midPrice r = Inr x"
  proof (rule ccontr)
    assume "\<not> ?thesis"
    then have "\<not> ?ok" by blast
    with mid have "midPrice r = Inl TypeError" by (simp only: if_False)
    with that show False by simp
  qed
  have partial: "\<forall>p\<in>set ps. curveId p \<noteq> 0 \<and> curveId p \<noteq> 1 \<longrightarrow>
            (\<forall>t. getPrice t p = None)
          \<and> midPrice r = Inl TypeError
          \<and> (\<forall>m. midPrice r \<noteq> Inl (InvariantFailed m))"
  proof (intro ballI impI conjI allI)
    fix p t assume "p \<in> set ps" and c: "curveId p \<noteq> 0 \<and> curveId p \<noteq> 1"
    from c show "getPrice t p = None" by (simp add: getPrice_None)
  next
    fix p assume "p \<in> set ps" and "curveId p \<noteq> 0 \<and> curveId p \<noteq> 1"
    then show "midPrice r = Inl TypeError" by (rule bad)
  next
    fix p m assume "p \<in> set ps" and "curveId p \<noteq> 0 \<and> curveId p \<noteq> 1"
    then have "midPrice r = Inl TypeError" by (rule bad)
    then show "midPrice r \<noteq> Inl (InvariantFailed m)" by simp
  qed
  have defined: "(\<exists>x. midPrice r = Inr x) \<longrightarrow> (\<forall>p\<in>set ps. curveId p = 0 \<or> curveId p = 1)"
    using good by (rule impI)
  from partial defined show ?thesis by (rule conjI)
qed

theorem midPrice_unsupported_curve_witness:
  "Route_new [ex_pair1, ex_pair_curve2] (IsToken ex_USDC) (Some ex_AVAX) =
     Inr \<lparr>pairs = [ex_pair1, ex_pair_curve2], path = [ex_USDC, ex_USDT, ex_WAVAX],
          input = IsToken ex_USDC, output = Some ex_AVAX, midPrice_memo = None\<rparr>
   \<and> getPrice ex_USDT ex_pair_curve2 = None
   \<and> midPrice \<lparr>pairs = [ex_pair1, ex_pair_curve2], path = [ex_USDC, ex_USDT, ex_WAVAX],
          input = IsToken ex_USDC, output = Some ex_AVAX, midPrice_memo = None\<rparr>
       = Inl TypeError"
proof -
  let ?r = "\<lparr>pairs = [ex_pair1, ex_pair_curve2], path = [ex_USDC, ex_USDT, ex_WAVAX],
          input = IsToken ex_USDC, output = Some ex_AVAX, midPrice_memo = None\<rparr>"
  have run: "Route_new [ex_pair1, ex_pair_curve2] (IsToken ex_USDC) (Some ex_AVAX) = Inr ?r"
    by (simp add: Route_new_def Let_def involvesToken_def)
  have member: "ex_pair_curve2 \<in> set [ex_pair1, ex_pair_curve2]" by simp
  have curve: "curveId ex_pair_curve2 \<noteq> 0 \<and> curveId ex_pair_curve2 \<noteq> 1" by simp
  from midPrice_unsupported_curve [OF run] member curve
  have "getPrice ex_USDT ex_pair_curve2 = None \<and> midPrice ?r = Inl TypeError"
    by blast
  with run show ?thesis by (intro conjI) (elim conjE, assumption)+
qed

end
